theory Spec2Isabelle
  imports Complex_Main "HOL-Library.Signed_Division" "HOL-Library.Word"
begin

section \<open>The voice detector of mod\_voice\_detector.c\<close>

text \<open>
  The module analyses one call leg frame by frame. Its media-bug callback scores a frame
  of PCM samples, advances the per-session detection state and calls the recording
  functions and the notification function. This theory embeds
  \<^verbatim>\<open>voice_detector_apply_runtime_params\<close>, \<^verbatim>\<open>voice_detector_get_recording_filename\<close>,
  \<^verbatim>\<open>voice_detector_start_recording\<close>, \<^verbatim>\<open>voice_detector_stop_recording\<close> and
  \<^verbatim>\<open>voice_detector_callback\<close>, the energy computation of the callback (lines 434 to 438)
  as a function of its own.

  Conventions of the embedding.
  \<^item> A C \<^verbatim>\<open>int\<close> is an \<open>int\<close>, and every operation of the source on \<^verbatim>\<open>int\<close> operands
    (increment, sum, product, difference) is followed by \<open>c_int\<close>, the reduction to 32 bits
    in two's complement: the result the compiled code computes, which is the exact result
    whenever that fits an \<^verbatim>\<open>int\<close>. The same reduction is the conversion of a 64-bit value
    to \<^verbatim>\<open>int\<close>, which happens where a \<^verbatim>\<open>switch_time_t\<close> (the host's count of microseconds
    since 1970) is assigned to an \<^verbatim>\<open>int\<close> field or passed as an \<^verbatim>\<open>int\<close> parameter.
  \<^item> A \<^verbatim>\<open>switch_time_t\<close> is an \<open>int\<close>; differences of clock readings are taken exactly
    (the readings are non-negative counts far below \<open>2 ^ 63\<close>).
  \<^item> C's \<^verbatim>\<open>/\<close> on \<^verbatim>\<open>int\<close> truncates towards zero (\<open>sdiv\<close>) and traps on a zero divisor and
    on the quotient of the least \<^verbatim>\<open>int\<close> by \<open>-1\<close> (\<open>c_div\<close>).
  \<^item> A \<^verbatim>\<open>float\<close> or \<^verbatim>\<open>double\<close> value is the real number it denotes, and every floating
    operation of the source rounds its exact result to the format: to the nearest
    number with a significand of 24 bits (\<open>to_float\<close>) or 53 bits (\<open>to_double\<close>), ties to
    the even significand. The exponent is not bounded: the values of the energy
    computation stay far from the exponent limits of both formats.
  \<^item> What the host answers (its clock, the results of starting and stopping a recording)
    is an input, \<open>host_t\<close>. What the module does to the outside is a list of events. A
    notification is dispatched when \<^verbatim>\<open>voice_detector_api_call\<close> is called; its body, the
    HTTP transport, is the host's side. Log lines are left out.
  \<^item> The pointers to the session data and to the host's session are valid, and memory
    allocation does not fail.
\<close>

subsection \<open>Data\<close>

type_synonym switch_time_t = int

datatype switch_status_t = SWITCH_STATUS_SUCCESS | SWITCH_STATUS_FALSE | SWITCH_STATUS_GENERR

datatype fault = Division_by_zero | Division_overflow

text \<open>
  The runtime parameters. \<open>recording_path\<close> and \<open>recording_prefix\<close> are the strings that
  \<^verbatim>\<open>voice_detector_get_recording_filename\<close> prints.
\<close>

record voice_detector_runtime_params_t =
  silence_ms :: int
  threshold :: real
  hits :: int
  timeout :: int
  interrupt_ms :: int
  energy_threshold :: real
  total_analysis_time :: int
  min_word_length :: int
  maximum_word_length :: int
  between_words_silence :: int
  max_silence :: int
  auto_record :: int
  recording_format :: int
  recording_path :: string
  recording_prefix :: string
  leg :: string

text \<open>Of the global configuration, the fields the embedded functions read.\<close>

record voice_detector_global_t =
  frame_size :: int
  sample_rate :: int
  debounce_ms :: int

text \<open>
  The session data. \<open>record_session\<close> is the host's recording handle (\<open>None\<close> is the
  null pointer), \<open>recording_file\<close> the file name (\<open>None\<close> is the null pointer).
\<close>

record voice_detector_session_t =
  last_voice_time :: switch_time_t
  last_api_call_time :: switch_time_t
  voice_detected :: int
  silence_frames :: int
  total_frames :: int
  uuid :: string
  record_session :: "nat option"
  recording_file :: "string option"
  is_recording :: int
  recording_start_time :: switch_time_t
  recording_duration :: switch_time_t
  runtime_params :: voice_detector_runtime_params_t
  consecutive_hits :: int
  word_start_time :: int
  word_end_time :: int
  current_word_length :: int
  between_words_silence_frames :: int
  max_silence_frames :: int

text \<open>
  A frame as the detection logic of the callback sees it: whether \<^verbatim>\<open>frame->data\<close> is null,
  \<^verbatim>\<open>frame->samples\<close>, and the value of the local \<^verbatim>\<open>energy\<close> after line 438, which is
  \<open>frame_energy\<close> (below) of the samples of the frame.
\<close>

record switch_frame_t =
  data_null :: bool
  samples :: int
  energy :: real

text \<open>
  The host during one callback: the readings of \<^verbatim>\<open>switch_micro_time_now()\<close> at the four
  places that call it, and the answers of \<^verbatim>\<open>switch_core_session_record_start\<close> (its
  status and what it leaves in \<^verbatim>\<open>record_session\<close>) and \<^verbatim>\<open>switch_core_session_record_stop\<close>.
\<close>

record host_t =
  clock_callback :: switch_time_t
  clock_filename :: switch_time_t
  clock_record_started :: switch_time_t
  clock_record_stop :: switch_time_t
  record_start_status :: switch_status_t
  record_start_session :: "nat option"
  record_stop_status :: switch_status_t

datatype record_flag = FLAG_WAV | FLAG_MP3 | FLAG_OGG

text \<open>
  Events, in the order they happen: a call of \<^verbatim>\<open>voice_detector_api_call(uuid, code, value, leg)\<close>
  (code 1 voice start, 0 voice end, 2 recording started, 3 recording stopped, 4 word
  detected), a call of the host's record-start and record-stop, and the two directives:
  the callback invoking \<^verbatim>\<open>voice_detector_start_recording\<close> or
  \<^verbatim>\<open>voice_detector_stop_recording\<close>.
\<close>

datatype event =
    Api_call string int int string
  | Record_start string record_flag
  | Record_stop nat
  | Start_recording_directive
  | Stop_recording_directive

subsection \<open>C arithmetic\<close>

text \<open>
  The reduction of an integer to \<^verbatim>\<open>int\<close>: modulo \<open>2 ^ 32\<close> into the range of a 32-bit two's
  complement number. It is the result of \<^verbatim>\<open>int\<close> arithmetic as the compiled code computes
  it, and the conversion of a wider integer to \<^verbatim>\<open>int\<close> as gcc and clang define it.
\<close>

definition c_int :: "int \<Rightarrow> int" where
  "c_int k = (k + 2147483648) mod 4294967296 - 2147483648"

definition c_div :: "int \<Rightarrow> int \<Rightarrow> fault + int" where
  "c_div a b =
     (if b = 0 then Inl Division_by_zero
      else if a = - 2147483648 \<and> b = - 1 then Inl Division_overflow
      else Inr (a sdiv b))"

text \<open>The cast \<^verbatim>\<open>(int)x\<close> of a floating value: the fraction is dropped.\<close>

definition int_of_float :: "real \<Rightarrow> int" where
  "int_of_float x = (if 0 \<le> x then \<lfloor>x\<rfloor> else \<lceil>x\<rceil>)"

text \<open>
  Rounding to the nearest integer, ties to the even one, and with it rounding of a real
  number to \<open>p\<close> significant bits: \<open>u\<close> is the weight of the last of the \<open>p\<close> bits of \<open>x\<close>.
\<close>

definition round_even :: "real \<Rightarrow> int" where
  "round_even y =
     (let f = \<lfloor>y\<rfloor> in
      if y - of_int f < 1 / 2 then f
      else if 1 / 2 < y - of_int f then f + 1
      else if even f then f else f + 1)"

definition float_round :: "nat \<Rightarrow> real \<Rightarrow> real" where
  "float_round p x =
     (if x = 0 then 0
      else
        let u = 2 powr (of_int \<lfloor>log 2 \<bar>x\<bar>\<rfloor> - (of_nat p - 1))
        in of_int (round_even (x / u)) * u)"

definition to_float :: "real \<Rightarrow> real" where
  "to_float x = float_round 24 x"


text \<open>The \<^verbatim>\<open>%ld\<close> of a number.\<close>

fun dec_digits :: "nat \<Rightarrow> string" where
  "dec_digits n =
     (if n < 10 then [char_of (48 + n)]
      else dec_digits (n div 10) @ [char_of (48 + n mod 10)])"

declare dec_digits.simps [simp del]

definition dec_int :: "int \<Rightarrow> string" where
  "dec_int k = (if k < 0 then CHR ''-'' # dec_digits (nat (- k)) else dec_digits (nat k))"

subsection \<open>The energy of a frame\<close>




subsection \<open>Recording\<close>

definition voice_detector_get_recording_filename :: "host_t \<Rightarrow> voice_detector_session_t \<Rightarrow> string" where
  "voice_detector_get_recording_filename h sd =
     (let now = clock_filename h;
          p = runtime_params sd;
          extension =
            (if recording_format p = 1 then ''mp3''
             else if recording_format p = 2 then ''ogg''
             else ''wav'');
          timestamp = dec_int (now sdiv 1000000)
      in recording_path p @ ''/'' @ recording_prefix p @ ''_'' @ uuid sd @ ''_'' @ timestamp
           @ ''.'' @ extension)"

text \<open>
  Starting a recording. The host's record-start is called with the address of
  \<open>record_session\<close>, so that field holds what the host left there whatever the status.
\<close>

definition voice_detector_start_recording ::
    "host_t \<Rightarrow> voice_detector_session_t \<Rightarrow> switch_status_t \<times> voice_detector_session_t \<times> event list" where
  "voice_detector_start_recording h sd =
     (let p = runtime_params sd in
      if auto_record p = 0 \<or> is_recording sd \<noteq> 0 then (SWITCH_STATUS_SUCCESS, sd, [])
      else
        let filename = voice_detector_get_recording_filename h sd;
            flags =
              (if recording_format p = 1 then FLAG_MP3
               else if recording_format p = 2 then FLAG_OGG
               else FLAG_WAV);
            status = record_start_status h;
            sd = sd\<lparr>record_session := record_start_session h\<rparr>
        in if status \<noteq> SWITCH_STATUS_SUCCESS then (status, sd, [Record_start filename flags])
           else
             (SWITCH_STATUS_SUCCESS,
              sd\<lparr>recording_file := Some filename,
                 is_recording := 1,
                 recording_start_time := clock_record_started h,
                 recording_duration := 0\<rparr>,
              [Record_start filename flags, Api_call (uuid sd) 2 0 (leg p)]))"

definition voice_detector_stop_recording ::
    "host_t \<Rightarrow> voice_detector_session_t \<Rightarrow> switch_status_t \<times> voice_detector_session_t \<times> event list" where
  "voice_detector_stop_recording h sd =
     (if is_recording sd = 0 then (SWITCH_STATUS_SUCCESS, sd, [])
      else
        case record_session sd of
          None \<Rightarrow> (SWITCH_STATUS_SUCCESS, sd, [])
        | Some rs \<Rightarrow>
            let now = clock_record_stop h;
                sd = sd\<lparr>recording_duration := (now - recording_start_time sd) sdiv 1000000\<rparr>;
                status = record_stop_status h
            in if status \<noteq> SWITCH_STATUS_SUCCESS then (status, sd, [Record_stop rs])
               else
                 (SWITCH_STATUS_SUCCESS,
                  sd\<lparr>record_session := None, is_recording := 0\<rparr>,
                  [Record_stop rs,
                   Api_call (uuid sd) 3 (c_int (recording_duration sd)) (leg (runtime_params sd))]))"

subsection \<open>Applying the runtime parameters\<close>

text \<open>
  Lines 167 to 185. The parameters are copied into the session (they are given here with
  the recording path and prefix that the fallbacks of lines 173 to 178 leave there) and
  the two frame counts are derived; both divisions are \<^verbatim>\<open>int\<close> divisions by the \<^verbatim>\<open>int\<close>
  product \<^verbatim>\<open>frame_size * 1000\<close>.
\<close>

definition voice_detector_apply_runtime_params ::
    "voice_detector_global_t \<Rightarrow> voice_detector_runtime_params_t \<Rightarrow> voice_detector_session_t
      \<Rightarrow> fault + voice_detector_session_t" where
  "voice_detector_apply_runtime_params g params sd0 =
     (let sd = sd0\<lparr>runtime_params := params\<rparr> in
      case c_div (c_int (max_silence params * sample_rate g)) (c_int (frame_size g * 1000)) of
        Inl x \<Rightarrow> Inl x
      | Inr m \<Rightarrow>
          (case c_div (c_int (between_words_silence params * sample_rate g))
                  (c_int (frame_size g * 1000)) of
             Inl x \<Rightarrow> Inl x
           | Inr b \<Rightarrow> Inr (sd\<lparr>max_silence_frames := m, between_words_silence_frames := b\<rparr>)))"

subsection \<open>The callback\<close>

definition voice_detector_callback ::
    "voice_detector_global_t \<Rightarrow> host_t \<Rightarrow> switch_frame_t \<Rightarrow> voice_detector_session_t
      \<Rightarrow> fault + (voice_detector_session_t \<times> event list)" where
  "voice_detector_callback g h frame sd0 =
     (if data_null frame \<or> samples frame \<le> 0 then Inr (sd0, [])
      else
        let now = clock_callback h;
            e = energy frame;
            sd = sd0\<lparr>total_frames := c_int (total_frames sd0 + 1)\<rparr>;
            p = runtime_params sd
        in
        if e > energy_threshold p then
          if voice_detected sd = 0 then
            let sd = sd\<lparr>consecutive_hits := c_int (consecutive_hits sd + 1)\<rparr>;
                fire = (now - last_api_call_time sd > c_int (debounce_ms g * 1000));
                ev1 = (if fire
                       then [Api_call (uuid sd) 1 (int_of_float (to_float (e * 1000))) (leg p)]
                       else []);
                sd = (if fire then sd\<lparr>last_api_call_time := now\<rparr> else sd)
            in
            if consecutive_hits sd \<ge> hits p then
              let sd = sd\<lparr>voice_detected := 1,
                         last_voice_time := now,
                         silence_frames := 0,
                         word_start_time := c_int now,
                         current_word_length := 0\<rparr>;
                  (status, sd, ev2) = voice_detector_start_recording h sd
              in Inr (sd, ev1 @ Start_recording_directive # ev2)
            else Inr (sd, ev1)
          else
            (case c_div (c_int (frame_size g * 1000)) (sample_rate g) of
               Inl x \<Rightarrow> Inl x
             | Inr ms \<Rightarrow>
                 let sd = sd\<lparr>consecutive_hits := 0,
                            current_word_length := c_int (current_word_length sd + ms)\<rparr>
                 in
                 if current_word_length sd > maximum_word_length p then
                   let sd = sd\<lparr>voice_detected := 0, consecutive_hits := 0\<rparr>;
                       (status, sd, ev) = voice_detector_stop_recording h sd
                   in Inr (sd, Stop_recording_directive # ev)
                 else Inr (sd, []))
        else
          if voice_detected sd \<noteq> 0 then
            (case c_div (c_int (frame_size g * 1000)) (sample_rate g) of
               Inl x \<Rightarrow> Inl x
             | Inr ms \<Rightarrow>
                 let sd = sd\<lparr>silence_frames := c_int (silence_frames sd + 1), consecutive_hits := 0\<rparr>;
                     silence_duration = c_int (silence_frames sd * ms)
                 in
                 if silence_duration > max_silence p then
                   let sd = sd\<lparr>voice_detected := 0\<rparr>;
                       (status, sd, ev) = voice_detector_stop_recording h sd;
                       fire = (now - last_api_call_time sd > c_int (debounce_ms g * 1000))
                   in Inr (if fire then sd\<lparr>last_api_call_time := now\<rparr> else sd,
                           Stop_recording_directive # ev
                             @ (if fire
                                then [Api_call (uuid sd) 0 (int_of_float (to_float (e * 1000))) (leg p)]
                                else []))
                 else if silence_duration > between_words_silence p then
                   if current_word_length sd \<ge> min_word_length p then
                     let sd = sd\<lparr>word_end_time := c_int now\<rparr>;
                         word_duration = c_int (word_end_time sd - word_start_time sd) sdiv 1000000
                     in Inr (sd\<lparr>word_start_time := c_int now, current_word_length := 0\<rparr>,
                             [Api_call (uuid sd) 4 word_duration (leg p)])
                   else Inr (sd, [])
                 else Inr (sd, []))
          else Inr (sd, []))"

text \<open>
  The host delivers the frames of a session in order, one callback after the other. A
  fault ends the run.
\<close>

fun run_frames ::
    "voice_detector_global_t \<Rightarrow> (host_t \<times> switch_frame_t) list \<Rightarrow> voice_detector_session_t
      \<Rightarrow> fault + (voice_detector_session_t \<times> event list)" where
  "run_frames g [] sd = Inr (sd, [])"
| "run_frames g (hf # rest) sd =
     (case voice_detector_callback g (fst hf) (snd hf) sd of
        Inl x \<Rightarrow> Inl x
      | Inr r \<Rightarrow>
          (case run_frames g rest (fst r) of
             Inl x \<Rightarrow> Inl x
           | Inr r' \<Rightarrow> Inr (fst r', snd r @ snd r')))"

subsection \<open>Reading the events\<close>

primrec is_voice_start :: "event \<Rightarrow> bool" where
  "is_voice_start (Api_call u c v l) = (c = 1)"
| "is_voice_start (Record_start f fl) = False"
| "is_voice_start (Record_stop rs) = False"
| "is_voice_start Start_recording_directive = False"
| "is_voice_start Stop_recording_directive = False"

primrec is_voice_end :: "event \<Rightarrow> bool" where
  "is_voice_end (Api_call u c v l) = (c = 0)"
| "is_voice_end (Record_start f fl) = False"
| "is_voice_end (Record_stop rs) = False"
| "is_voice_end Start_recording_directive = False"
| "is_voice_end Stop_recording_directive = False"

primrec is_word_detected :: "event \<Rightarrow> bool" where
  "is_word_detected (Api_call u c v l) = (c = 4)"
| "is_word_detected (Record_start f fl) = False"
| "is_word_detected (Record_stop rs) = False"
| "is_word_detected Start_recording_directive = False"
| "is_word_detected Stop_recording_directive = False"

text \<open>The notifications the debounce window applies to, and the rest of the events.\<close>

definition is_voice_notification :: "event \<Rightarrow> bool" where
  "is_voice_notification ev = (is_voice_start ev \<or> is_voice_end ev)"

definition other_events :: "event list \<Rightarrow> event list" where
  "other_events evs = filter (\<lambda>ev. \<not> is_voice_notification ev) evs"

text \<open>
  What a callback leaves apart from the throttle: the session data with
  \<open>last_api_call_time\<close> blanked, and the events that are not voice notifications.
\<close>

definition unthrottled ::
    "fault + (voice_detector_session_t \<times> event list)
      \<Rightarrow> fault + (voice_detector_session_t \<times> event list)" where
  "unthrottled r =
     (case r of
        Inl x \<Rightarrow> Inl x
      | Inr q \<Rightarrow> Inr ((fst q)\<lparr>last_api_call_time := 0\<rparr>, other_events (snd q)))"

subsection \<open>The defaults and a new session\<close>

text \<open>The defaults of \<^verbatim>\<open>voice_detector_parse_config\<close> (lines 205 to 209).\<close>

definition default_globals :: voice_detector_global_t where
  "default_globals = \<lparr>frame_size = 160, sample_rate = 8000, debounce_ms = 500\<rparr>"

text \<open>
  The defaults of \<^verbatim>\<open>voice_detector_parse_runtime_params\<close> (lines 91 to 106). The two
  \<^verbatim>\<open>float\<close> defaults are the values of the constants \<^verbatim>\<open>0.5f\<close> and \<^verbatim>\<open>0.05f\<close>, the second
  being \<open>13421773 / 2 ^ 28\<close>. The recording path and prefix are those that
  \<^verbatim>\<open>voice_detector_parse_config\<close> sets when the configuration file names none (lines 260
  to 269).
\<close>

definition default_runtime_params :: voice_detector_runtime_params_t where
  "default_runtime_params =
     \<lparr>silence_ms = 150, threshold = 1 / 2, hits = 2, timeout = 2000, interrupt_ms = 50,
      energy_threshold = 13421773 / 268435456, total_analysis_time = 4000, min_word_length = 100,
      maximum_word_length = 3500, between_words_silence = 50, max_silence = 2000,
      auto_record = 1, recording_format = 0, recording_path = ''/tmp'',
      recording_prefix = ''voice_detection'', leg = ''a''\<rparr>"

text \<open>
  The session data before the first frame: the values \<^verbatim>\<open>voice_detector_app_function\<close>
  assigns to the fields (lines 677 to 692), the runtime parameters, and the two frame
  counts as lines 181 and 182 compute them where their divisions do not trap
  (\<open>voice_detector_apply_runtime_params\<close> has the traps). As the source stands,
  \<^verbatim>\<open>voice_detector_app_function\<close> makes these assignments through a pointer that is still
  null (line 647); the definition is the session data the assignments describe, which is
  what the callback is written for.
\<close>

definition new_session ::
    "voice_detector_global_t \<Rightarrow> string \<Rightarrow> voice_detector_runtime_params_t \<Rightarrow> voice_detector_session_t" where
  "new_session g u p =
     \<lparr>last_voice_time = 0, last_api_call_time = 0, voice_detected = 0, silence_frames = 0,
      total_frames = 0, uuid = u, record_session = None, recording_file = None,
      is_recording = 0, recording_start_time = 0, recording_duration = 0,
      runtime_params = p, consecutive_hits = 0, word_start_time = 0, word_end_time = 0,
      current_word_length = 0,
      between_words_silence_frames =
        c_int (between_words_silence p * sample_rate g) sdiv c_int (frame_size g * 1000),
      max_silence_frames = c_int (max_silence p * sample_rate g) sdiv c_int (frame_size g * 1000)\<rparr>"

text \<open>A host whose clock reads \<open>t\<close> throughout a callback and whose recorder succeeds.\<close>

definition host_at :: "switch_time_t \<Rightarrow> host_t" where
  "host_at t =
     \<lparr>clock_callback = t, clock_filename = t, clock_record_started = t, clock_record_stop = t,
      record_start_status = SWITCH_STATUS_SUCCESS, record_start_session = Some 1,
      record_stop_status = SWITCH_STATUS_SUCCESS\<rparr>"

text \<open>A frame of 160 samples with the given energy.\<close>

definition frame_of :: "real \<Rightarrow> switch_frame_t" where
  "frame_of e = \<lparr>data_null = False, samples = 160, energy = e\<rparr>"


definition voice_notifications :: "event list \<Rightarrow> event list" where
  "voice_notifications evs = filter is_voice_notification evs"

text \<open>The frames the callback processes: line 430 returns at once on the others.\<close>

definition frame_ok :: "switch_frame_t \<Rightarrow> bool" where
  "frame_ok frame = (0 < samples frame \<and> data_null frame = False)"

text \<open>A processed frame at or below, and above, the energy threshold of the parameters.\<close>

definition below :: "voice_detector_runtime_params_t \<Rightarrow> switch_frame_t \<Rightarrow> bool" where
  "below p frame = (frame_ok frame \<and> energy frame \<le> energy_threshold p)"

definition above :: "voice_detector_runtime_params_t \<Rightarrow> switch_frame_t \<Rightarrow> bool" where
  "above p frame = (frame_ok frame \<and> energy_threshold p < energy frame)"

text \<open>The session data and the events of an outcome.\<close>

definition final_session ::
    "fault + (voice_detector_session_t \<times> event list) \<Rightarrow> voice_detector_session_t option" where
  "final_session r = (case r of Inl x \<Rightarrow> None | Inr q \<Rightarrow> Some (fst q))"

definition events_of :: "fault + (voice_detector_session_t \<times> event list) \<Rightarrow> event list" where
  "events_of r = (case r of Inl x \<Rightarrow> [] | Inr q \<Rightarrow> snd q)"

text \<open>
  The milliseconds of a frame, \<^verbatim>\<open>frame_size * 1000 / sample_rate\<close> of lines 473 and 489, or
  the trap of the division.
\<close>

definition frame_ms :: "voice_detector_global_t \<Rightarrow> fault + int" where
  "frame_ms g = c_div (c_int (frame_size g * 1000)) (sample_rate g)"

text \<open>Frames with the given energy, 20 ms apart from the time \<open>t\<close> on.\<close>

fun frames_every :: "switch_time_t \<Rightarrow> nat \<Rightarrow> real \<Rightarrow> (host_t \<times> switch_frame_t) list" where
  "frames_every t 0 e = []"
| "frames_every t (Suc n) e = (host_at t, frame_of e) # frames_every (t + 20000) n e"

section \<open>Properties\<close>

subsection \<open>Arithmetic in 32 bits\<close>

lemma c_int_id: "- 2147483648 \<le> k \<Longrightarrow> k < 2147483648 \<Longrightarrow> c_int k = k"
  by (simp add: c_int_def)

lemma c_int_range: "- 2147483648 \<le> c_int k" "c_int k < 2147483648"
  by (simp_all add: c_int_def)

lemma c_int_mod: "c_int k mod 4294967296 = k mod 4294967296"
proof -
  have "c_int k mod 4294967296 = ((k + 2147483648) mod 4294967296 - 2147483648 mod 4294967296) mod 4294967296"
    by (simp add: c_int_def)
  also have "\<dots> = (k + 2147483648 - 2147483648) mod 4294967296"
    by (simp only: mod_diff_eq)
  finally show ?thesis by simp
qed

lemma c_int_cong: "a mod 4294967296 = b mod 4294967296 \<Longrightarrow> c_int a = c_int b"
proof -
  assume "a mod 4294967296 = b mod 4294967296"
  then have "(a + 2147483648) mod 4294967296 = (b + 2147483648) mod 4294967296"
    by (metis mod_add_left_eq)
  then show ?thesis by (simp add: c_int_def)
qed

lemma c_int_idem: "c_int (c_int k) = c_int k"
  by (rule c_int_cong) (rule c_int_mod)

lemma c_int_add_left: "c_int (c_int a + b) = c_int (a + b)"
proof (rule c_int_cong)
  show "(c_int a + b) mod 4294967296 = (a + b) mod 4294967296"
    using c_int_mod [of a] by (metis mod_add_left_eq)
qed

lemma c_int_mult_left: "c_int (c_int a * b) = c_int (a * b)"
proof (rule c_int_cong)
  show "(c_int a * b) mod 4294967296 = (a * b) mod 4294967296"
    using c_int_mod [of a] by (metis mod_mult_left_eq)
qed

lemma c_int_diff_left: "c_int (c_int a - b) = c_int (a - b)"
proof (rule c_int_cong)
  show "(c_int a - b) mod 4294967296 = (a - b) mod 4294967296"
    using c_int_mod [of a] by (metis mod_diff_left_eq)
qed

subsection \<open>Rounding\<close>

text \<open>
  Rounding to \<open>p\<close> bits keeps a value within its binade, is monotone on the non-negative
  numbers, and leaves a number with a significand of at most \<open>p\<close> bits as it is.
\<close>

lemma round_even_of_int: "round_even (of_int k) = k"
  by (simp add: round_even_def)



lemma floor_log2:
  assumes "2 powr of_int e \<le> x" "x < 2 powr (of_int e + 1)"
  shows "\<lfloor>log 2 x\<rfloor> = e"
proof -
  have pos: "0 < x" using assms(1) by (smt (verit) powr_gt_zero)
  have "of_int e \<le> log 2 x" using assms(1) pos by (simp add: le_log_iff)
  moreover have "log 2 x < of_int e + 1" using assms(2) pos by (simp add: log_less_iff)
  ultimately show ?thesis by linarith
qed

lemma float_round_binade:
  assumes "2 powr of_int e \<le> x" "x < 2 powr (of_int e + 1)"
  shows "float_round p x =
      of_int (round_even (x / 2 powr (of_int e - (of_nat p - 1)))) * 2 powr (of_int e - (of_nat p - 1))"
proof -
  have pos: "0 < x" using assms(1) by (smt (verit) powr_gt_zero)
  with floor_log2 [OF assms] show ?thesis by (simp add: float_round_def Let_def)
qed

lemma binade_ex:
  assumes "0 < x"
  shows "2 powr of_int \<lfloor>log 2 x\<rfloor> \<le> x \<and> x < 2 powr (of_int \<lfloor>log 2 x\<rfloor> + 1)"
proof -
  have x: "2 powr log 2 x = x" using assms by simp
  have "of_int \<lfloor>log 2 x\<rfloor> \<le> log 2 x" by simp
  then have "2 powr of_int \<lfloor>log 2 x\<rfloor> \<le> 2 powr log 2 x" by simp
  with x have a: "2 powr of_int \<lfloor>log 2 x\<rfloor> \<le> x" by simp
  have "log 2 x < of_int \<lfloor>log 2 x\<rfloor> + 1" by linarith
  then have "2 powr log 2 x < 2 powr (of_int \<lfloor>log 2 x\<rfloor> + 1)" by simp
  with x a show ?thesis by simp
qed






lemma float_round_exact_strict:
  assumes "0 < m" "m < 2 ^ p"
  shows "float_round p (real m * 2 powr of_int j) = real m * 2 powr of_int j"
proof -
  let ?x = "real m * 2 powr of_int j"
  have x: "0 < ?x" using assms(1) by simp
  let ?e = "\<lfloor>log 2 ?x\<rfloor>"
  note b = binade_ex [OF x]
  let ?u = "(2::real) powr (of_int ?e - (of_nat p - 1))"
  have fr: "float_round p ?x = of_int (round_even (?x / ?u)) * ?u"
    using float_round_binade [of ?e ?x p] b by simp
  have "real m < 2 ^ p" using assms(2) by (metis of_nat_less_iff of_nat_numeral of_nat_power)
  then have "?x < 2 ^ p * 2 powr of_int j" by simp
  also have "\<dots> = 2 powr (of_nat p + of_int j)"
    by (simp add: powr_add powr_realpow [symmetric])
  finally have "2 powr of_int ?e < (2::real) powr (of_nat p + of_int j)" using b by linarith
  then have "of_int ?e < (of_nat p + of_int j :: real)" by simp
  then have "?e < int p + j" by linarith
  then have "0 \<le> j - ?e + int p - 1" by linarith
  then obtain k where k: "int k = j - ?e + int p - 1" using nonneg_int_cases by metis
  have kk: "(of_nat k :: real) = of_int j - (of_int ?e - (of_nat p - 1))"
  proof -
    have "(of_int (int k) :: real) = of_int (j - ?e + int p - 1)" using k by simp
    then show ?thesis by simp
  qed
  have "?x / ?u = real m * 2 powr (of_int j - (of_int ?e - (of_nat p - 1)))"
    by (simp add: powr_diff)
  also have "\<dots> = real m * 2 powr (of_nat k)" by (simp only: kk)
  also have "\<dots> = of_int (int m * 2 ^ k)" by (simp add: powr_realpow)
  finally have "round_even (?x / ?u) = int m * 2 ^ k" by (simp only: round_even_of_int)
  then have "float_round p ?x = real m * (2 powr (of_nat k) * ?u)" by (simp add: fr powr_realpow)
  also have "2 powr (of_nat k) * ?u = 2 powr (of_nat k + (of_int ?e - (of_nat p - 1)))"
    by (simp only: powr_add)
  also have "of_nat k + (of_int ?e - (of_nat p - 1)) = (of_int j :: real)"
    by (simp add: kk)
  finally show ?thesis .
qed

lemma float_round_exact:
  assumes "0 < p" "0 < m" "m \<le> 2 ^ p"
  shows "float_round p (real m * 2 powr of_int j) = real m * 2 powr of_int j"
proof (cases "m = 2 ^ p")
  case False
  with assms have "m < 2 ^ p" by simp
  from float_round_exact_strict [OF assms(2) this] show ?thesis .
next
  case True
  have "(1::nat) < 2 ^ p" using assms(1) one_less_power [of "2::nat" p] by simp
  from float_round_exact_strict [OF _ this, of "j + int p"]
  have "float_round p (2 powr of_int (j + int p)) = 2 powr of_int (j + int p)" by simp
  moreover have "real m * 2 powr of_int j = 2 powr of_int (j + int p)"
    by (simp add: True powr_add powr_realpow [symmetric])
  ultimately show ?thesis by simp
qed

lemma float_round_exact_mult:
  assumes "0 < p" "m \<le> 2 ^ p"
  shows "float_round p (real m * 2 ^ k) = real m * 2 ^ k"
proof (cases "m = 0")
  case True
  then show ?thesis by (simp add: float_round_def)
next
  case False
  then have "0 < m" by simp
  from float_round_exact [OF assms(1) this assms(2), of "int k"] show ?thesis
    by (simp add: powr_realpow)
qed








lemma to_float_nat: "m \<le> 16777216 \<Longrightarrow> to_float (real m * 2 ^ k) = real m * 2 ^ k"
  using float_round_exact_mult [of 24 m k] by (simp add: to_float_def)




subsection \<open>The energy of a frame\<close>


























subsection \<open>The recording functions and the detection state\<close>

lemma start_rec_throttle:
  "voice_detector_start_recording h (sd\<lparr>last_api_call_time := t\<rparr>) =
     (fst (voice_detector_start_recording h sd),
      (fst (snd (voice_detector_start_recording h sd)))\<lparr>last_api_call_time := t\<rparr>,
      snd (snd (voice_detector_start_recording h sd)))"
  by (simp add: voice_detector_start_recording_def voice_detector_get_recording_filename_def Let_def)

lemma stop_rec_throttle:
  "voice_detector_stop_recording h (sd\<lparr>last_api_call_time := t\<rparr>) =
     (fst (voice_detector_stop_recording h sd),
      (fst (snd (voice_detector_stop_recording h sd)))\<lparr>last_api_call_time := t\<rparr>,
      snd (snd (voice_detector_stop_recording h sd)))"
  by (simp add: voice_detector_stop_recording_def Let_def split: option.splits)

lemma start_rec_keeps:
  "voice_detected (fst (snd (voice_detector_start_recording h sd))) = voice_detected sd"
  "consecutive_hits (fst (snd (voice_detector_start_recording h sd))) = consecutive_hits sd"
  "silence_frames (fst (snd (voice_detector_start_recording h sd))) = silence_frames sd"
  "current_word_length (fst (snd (voice_detector_start_recording h sd))) = current_word_length sd"
  "word_start_time (fst (snd (voice_detector_start_recording h sd))) = word_start_time sd"
  "last_api_call_time (fst (snd (voice_detector_start_recording h sd))) = last_api_call_time sd"
  "runtime_params (fst (snd (voice_detector_start_recording h sd))) = runtime_params sd"
  "uuid (fst (snd (voice_detector_start_recording h sd))) = uuid sd"
  "total_frames (fst (snd (voice_detector_start_recording h sd))) = total_frames sd"
  by (simp_all add: voice_detector_start_recording_def Let_def)

lemma stop_rec_keeps:
  "voice_detected (fst (snd (voice_detector_stop_recording h sd))) = voice_detected sd"
  "consecutive_hits (fst (snd (voice_detector_stop_recording h sd))) = consecutive_hits sd"
  "silence_frames (fst (snd (voice_detector_stop_recording h sd))) = silence_frames sd"
  "current_word_length (fst (snd (voice_detector_stop_recording h sd))) = current_word_length sd"
  "word_start_time (fst (snd (voice_detector_stop_recording h sd))) = word_start_time sd"
  "last_api_call_time (fst (snd (voice_detector_stop_recording h sd))) = last_api_call_time sd"
  "runtime_params (fst (snd (voice_detector_stop_recording h sd))) = runtime_params sd"
  "uuid (fst (snd (voice_detector_stop_recording h sd))) = uuid sd"
  "total_frames (fst (snd (voice_detector_stop_recording h sd))) = total_frames sd"
  by (simp_all add: voice_detector_stop_recording_def Let_def split: option.splits)

lemma start_rec_last_api:
  "(fst (snd (voice_detector_start_recording h sd)))\<lparr>last_api_call_time := last_api_call_time sd\<rparr>
     = fst (snd (voice_detector_start_recording h sd))"
  by (simp add: voice_detector_start_recording_def Let_def)

lemma start_rec_events:
  "other_events (snd (snd (voice_detector_start_recording h sd))) = snd (snd (voice_detector_start_recording h sd))"
  by (simp add: voice_detector_start_recording_def other_events_def is_voice_notification_def Let_def)

lemma stop_rec_events:
  "other_events (snd (snd (voice_detector_stop_recording h sd))) = snd (snd (voice_detector_stop_recording h sd))"
  by (simp add: voice_detector_stop_recording_def other_events_def is_voice_notification_def Let_def split: option.splits)

subsection \<open>A new session\<close>

text \<open>
  \<open>new_session\<close> is what \<open>voice_detector_apply_runtime_params\<close> returns where its divisions
  do not trap, as with the defaults.
\<close>

lemma apply_runtime_params_new_session:
  assumes "c_div (c_int (max_silence p * sample_rate g)) (c_int (frame_size g * 1000)) = Inr m"
    and "c_div (c_int (between_words_silence p * sample_rate g)) (c_int (frame_size g * 1000)) = Inr b"
  shows "voice_detector_apply_runtime_params g p (new_session g u p0) = Inr (new_session g u p)"
  using assms
  by (auto simp add: voice_detector_apply_runtime_params_def new_session_def c_div_def Let_def
      split: if_splits)

lemma apply_runtime_params_default:
  "voice_detector_apply_runtime_params default_globals default_runtime_params
       (new_session default_globals u p0)
     = Inr (new_session default_globals u default_runtime_params)"
  by (rule apply_runtime_params_new_session [where m = 100 and b = 2])
    (simp_all add: default_globals_def default_runtime_params_def c_div_def c_int_def
      signed_divide_int_def)

subsection \<open>The paths of the callback\<close>

text \<open>
  One equation for each way through the callback: an ignored frame, an above-threshold
  frame before and after confirmation, a below-threshold frame before and after
  confirmation, and the trap of the frame-duration division.
\<close>

lemma callback_ignored:
  "\<not> frame_ok frame \<Longrightarrow> voice_detector_callback g h frame sd = Inr (sd, [])"
  by (auto simp add: voice_detector_callback_def frame_ok_def)

lemma callback_onset_raw:
  assumes "frame_ok frame" "energy frame > energy_threshold (runtime_params sd)" "voice_detected sd = 0"
  shows "voice_detector_callback g h frame sd =
    (let now = clock_callback h;
         fire = (now - last_api_call_time sd > c_int (debounce_ms g * 1000));
         ev1 = (if fire then [Api_call (uuid sd) 1 (int_of_float (to_float (energy frame * 1000))) (leg (runtime_params sd))] else []);
         sd1 = sd\<lparr>total_frames := c_int (total_frames sd + 1),
                   consecutive_hits := c_int (consecutive_hits sd + 1),
                   last_api_call_time := (if fire then now else last_api_call_time sd)\<rparr>
     in if c_int (consecutive_hits sd + 1) \<ge> hits (runtime_params sd) then
          let r = voice_detector_start_recording h
                    (sd1\<lparr>voice_detected := 1, last_voice_time := now, silence_frames := 0,
                        word_start_time := c_int now, current_word_length := 0\<rparr>)
          in Inr (fst (snd r), ev1 @ Start_recording_directive # snd (snd r))
        else Inr (sd1, ev1))"
  using assms
  by (simp add: voice_detector_callback_def frame_ok_def Let_def case_prod_unfold)

lemma callback_onset:
  assumes "frame_ok frame" "energy frame > energy_threshold (runtime_params sd)" "voice_detected sd = 0"
  shows "voice_detector_callback g h frame sd =
    (let now = clock_callback h;
         fire = (now - last_api_call_time sd > c_int (debounce_ms g * 1000));
         ev1 = (if fire then [Api_call (uuid sd) 1 (int_of_float (to_float (energy frame * 1000))) (leg (runtime_params sd))] else []);
         t' = (if fire then now else last_api_call_time sd);
         sd1 = sd\<lparr>total_frames := c_int (total_frames sd + 1),
                   consecutive_hits := c_int (consecutive_hits sd + 1)\<rparr>
     in if c_int (consecutive_hits sd + 1) \<ge> hits (runtime_params sd) then
          let r = voice_detector_start_recording h
                    (sd1\<lparr>voice_detected := 1, last_voice_time := now, silence_frames := 0,
                        word_start_time := c_int now, current_word_length := 0\<rparr>)
          in Inr ((fst (snd r))\<lparr>last_api_call_time := t'\<rparr>, ev1 @ Start_recording_directive # snd (snd r))
        else Inr (sd1\<lparr>last_api_call_time := t'\<rparr>, ev1))"
proof -
  let ?now = "clock_callback h"
  let ?c = "sd\<lparr>total_frames := c_int (total_frames sd + 1),
                   consecutive_hits := c_int (consecutive_hits sd + 1), voice_detected := 1, last_voice_time := ?now, silence_frames := 0,
                        word_start_time := c_int ?now, current_word_length := 0\<rparr>"
  have a: "sd\<lparr>total_frames := c_int (total_frames sd + 1),
                   consecutive_hits := c_int (consecutive_hits sd + 1), last_api_call_time := x, voice_detected := 1, last_voice_time := ?now, silence_frames := 0,
                        word_start_time := c_int ?now, current_word_length := 0\<rparr> = ?c\<lparr>last_api_call_time := x\<rparr>" for x
    by simp
  have b: "?c\<lparr>last_api_call_time := last_api_call_time sd\<rparr> = ?c" by simp
  have c: "(fst (snd (voice_detector_start_recording h ?c)))\<lparr>last_api_call_time := last_api_call_time sd\<rparr>
     = fst (snd (voice_detector_start_recording h ?c))"
    using start_rec_last_api [where h = h and sd = ?c] by simp
  show ?thesis
    using assms
    by (simp add: callback_onset_raw Let_def a start_rec_throttle c)
qed

lemma callback_voicing:
  assumes "frame_ok frame" "energy frame > energy_threshold (runtime_params sd)" "voice_detected sd \<noteq> 0"
    "frame_ms g = Inr ms"
  shows "voice_detector_callback g h frame sd =
    (let sd1 = sd\<lparr>total_frames := c_int (total_frames sd + 1), consecutive_hits := 0,
                   current_word_length := c_int (current_word_length sd + ms)\<rparr>
     in if c_int (current_word_length sd + ms) > maximum_word_length (runtime_params sd) then
          let r = voice_detector_stop_recording h (sd1\<lparr>voice_detected := 0, consecutive_hits := 0\<rparr>)
          in Inr (fst (snd r), Stop_recording_directive # snd (snd r))
        else Inr (sd1, []))"
  using assms
  by (simp add: voice_detector_callback_def frame_ok_def frame_ms_def Let_def case_prod_unfold)

lemma callback_idle_silence:
  assumes "frame_ok frame" "energy frame \<le> energy_threshold (runtime_params sd)" "voice_detected sd = 0"
  shows "voice_detector_callback g h frame sd = Inr (sd\<lparr>total_frames := c_int (total_frames sd + 1)\<rparr>, [])"
  using assms
  by (simp add: voice_detector_callback_def frame_ok_def Let_def)

lemma callback_silence:
  assumes "frame_ok frame" "energy frame \<le> energy_threshold (runtime_params sd)" "voice_detected sd \<noteq> 0"
    "frame_ms g = Inr ms"
  shows "voice_detector_callback g h frame sd =
    (let now = clock_callback h;
         p = runtime_params sd;
         sd1 = sd\<lparr>total_frames := c_int (total_frames sd + 1),
                   silence_frames := c_int (silence_frames sd + 1),
                   consecutive_hits := 0\<rparr>;
         silence_duration = c_int (c_int (silence_frames sd + 1) * ms)
     in if silence_duration > max_silence p then
          let r = voice_detector_stop_recording h (sd1\<lparr>voice_detected := 0\<rparr>);
              fire = (now - last_api_call_time sd > c_int (debounce_ms g * 1000))
          in Inr ((fst (snd r))\<lparr>last_api_call_time := (if fire then now else last_api_call_time sd)\<rparr>,
                  Stop_recording_directive # snd (snd r)
                    @ (if fire then [Api_call (uuid sd) 0 (int_of_float (to_float (energy frame * 1000))) (leg p)] else []))
        else if silence_duration > between_words_silence p \<and> current_word_length sd \<ge> min_word_length p then
          Inr (sd1\<lparr>word_end_time := c_int now, word_start_time := c_int now, current_word_length := 0\<rparr>,
               [Api_call (uuid sd) 4 (c_int (c_int now - word_start_time sd) sdiv 1000000) (leg p)])
        else Inr (sd1, []))"
  using assms
  by (simp add: voice_detector_callback_def frame_ok_def frame_ms_def Let_def stop_rec_keeps case_prod_unfold)

lemma callback_fault:
  assumes "frame_ok frame" "voice_detected sd \<noteq> 0" "frame_ms g = Inl x"
  shows "voice_detector_callback g h frame sd = Inl x"
  using assms
  by (simp add: voice_detector_callback_def frame_ok_def frame_ms_def Let_def)

lemma frame_ms_debounce: "frame_ms (g\<lparr>debounce_ms := d\<rparr>) = frame_ms g"
  by (simp add: frame_ms_def)

lemma frame_ms_20: "frame_size g = 160 \<Longrightarrow> sample_rate g = 8000 \<Longrightarrow> frame_ms g = Inr 20"
  by (simp add: frame_ms_def c_div_def c_int_def signed_divide_int_def)

lemma frame_ms_default: "frame_ms default_globals = Inr 20"
  by (simp add: frame_ms_20 default_globals_def)

lemmas callback_voicing_20 = callback_voicing [OF _ _ _ frame_ms_20]

lemmas callback_silence_20 = callback_silence [OF _ _ _ frame_ms_20]

subsection \<open>Returning, and the voice notifications of one callback\<close>

text \<open>The callback returns unless the frame-duration division traps.\<close>

lemma callback_returns:
  assumes "frame_ms g = Inr ms"
  shows "\<exists>sd' evs. voice_detector_callback g h frame sd = Inr (sd', evs)"
proof (cases "frame_ok frame")
  case False
  then show ?thesis by (simp add: callback_ignored)
next
  case ok: True
  show ?thesis
  proof (cases "voice_detected sd = 0")
    case True
    with ok show ?thesis
      by (cases "energy frame > energy_threshold (runtime_params sd)")
        (simp_all add: callback_onset callback_idle_silence Let_def)
  next
    case False
    with ok assms show ?thesis
      by (cases "energy frame > energy_threshold (runtime_params sd)")
        (simp_all add: callback_voicing callback_silence Let_def)
  qed
qed

lemmas scenario_defs = default_globals_def default_runtime_params_def new_session_def host_at_def
  frame_of_def frame_ok_def

lemma payload_values:
  "to_float 200 = 200" "to_float 10 = 10"
  using to_float_nat [of 200 0] to_float_nat [of 10 0] by simp_all

lemma voice_notifications_simps:
  "voice_notifications [] = []"
  "voice_notifications (xs @ ys) = voice_notifications xs @ voice_notifications ys"
  "voice_notifications (Start_recording_directive # xs) = voice_notifications xs"
  "voice_notifications (Stop_recording_directive # xs) = voice_notifications xs"
  "voice_notifications (Api_call u c v l # xs) = (if c = 1 \<or> c = 0 then Api_call u c v l # voice_notifications xs else voice_notifications xs)"
  by (simp_all add: voice_notifications_def is_voice_notification_def)

lemma start_rec_no_voice:
  "voice_notifications (snd (snd (voice_detector_start_recording h sd))) = []"
  by (simp add: voice_detector_start_recording_def voice_notifications_def is_voice_notification_def Let_def)

lemma stop_rec_no_voice:
  "voice_notifications (snd (snd (voice_detector_stop_recording h sd))) = []"
  by (simp add: voice_detector_stop_recording_def voice_notifications_def is_voice_notification_def Let_def split: option.splits)

lemma callback_voice_notifications:
  assumes "voice_detector_callback g h frame sd = Inr (sd', evs)"
  shows "(voice_notifications evs = [] \<and> last_api_call_time sd' = last_api_call_time sd)
       \<or> (length (voice_notifications evs) = 1
          \<and> c_int (debounce_ms g * 1000) < clock_callback h - last_api_call_time sd
          \<and> last_api_call_time sd' = clock_callback h)"
proof (cases "frame_ok frame")
  case False
  with assms show ?thesis by (simp add: callback_ignored voice_notifications_simps)
next
  case ok: True
  show ?thesis
  proof (cases "voice_detected sd = 0")
    case idle: True
    show ?thesis
    proof (cases "energy frame > energy_threshold (runtime_params sd)")
      case True
      with ok idle assms show ?thesis
        by (auto simp add: callback_onset Let_def voice_notifications_simps start_rec_no_voice
            start_rec_keeps split: if_splits)
    next
      case False
      with ok idle assms show ?thesis
        by (auto simp add: callback_idle_silence voice_notifications_simps)
    qed
  next
    case voicing: False
    show ?thesis
    proof (cases "frame_ms g")
      case (Inl x)
      with ok voicing assms show ?thesis by (simp add: callback_fault)
    next
      case rate: (Inr ms)
      show ?thesis
      proof (cases "energy frame > energy_threshold (runtime_params sd)")
        case True
        with ok voicing assms show ?thesis
          by (auto simp add: callback_voicing [OF _ _ _ rate] Let_def voice_notifications_simps stop_rec_no_voice
              stop_rec_keeps split: if_splits)
      next
        case False
        with ok voicing assms show ?thesis
          by (auto simp add: callback_silence [OF _ _ _ rate] Let_def voice_notifications_simps stop_rec_no_voice
              stop_rec_keeps split: if_splits)
      qed
    qed
  qed
qed

subsection \<open>The throttle and the detection state\<close>

lemma other_events_simps:
  "other_events [] = []"
  "other_events (xs @ ys) = other_events xs @ other_events ys"
  "other_events (Start_recording_directive # xs) = Start_recording_directive # other_events xs"
  "other_events (Stop_recording_directive # xs) = Stop_recording_directive # other_events xs"
  "other_events (Api_call u c v l # xs) = (if c = 1 \<or> c = 0 then other_events xs else Api_call u c v l # other_events xs)"
  by (simp_all add: other_events_def is_voice_notification_def)

lemma callback_throttle:
  "unthrottled (voice_detector_callback (g\<lparr>debounce_ms := d\<rparr>) h frame (sd\<lparr>last_api_call_time := t\<rparr>))
     = unthrottled (voice_detector_callback g h frame sd)"
proof (cases "frame_ok frame")
  case False
  then show ?thesis by (simp add: callback_ignored unthrottled_def)
next
  case ok: True
  show ?thesis
  proof (cases "voice_detected sd = 0")
    case idle: True
    show ?thesis
    proof (cases "energy frame > energy_threshold (runtime_params sd)")
      case True
      have a: "sd\<lparr>last_api_call_time := t, total_frames := tf, consecutive_hits := ch,
                 voice_detected := 1, last_voice_time := lv, silence_frames := 0,
                 word_start_time := ws, current_word_length := 0\<rparr>
            = sd\<lparr>total_frames := tf, consecutive_hits := ch,
                 voice_detected := 1, last_voice_time := lv, silence_frames := 0,
                 word_start_time := ws, current_word_length := 0\<rparr>\<lparr>last_api_call_time := t\<rparr>"
        for tf ch lv ws
        by simp
      from True ok idle show ?thesis
        by (simp add: callback_onset unthrottled_def Let_def a start_rec_throttle
            other_events_simps start_rec_events)
    next
      case False
      with ok idle show ?thesis
        by (simp add: callback_idle_silence unthrottled_def)
    qed
  next
    case voicing: False
    show ?thesis
    proof (cases "frame_ms g")
      case (Inl x)
      with ok voicing show ?thesis by (simp add: callback_fault frame_ms_debounce unthrottled_def)
    next
      case rate: (Inr ms)
      then have rate': "frame_ms (g\<lparr>debounce_ms := d\<rparr>) = Inr ms" by (simp add: frame_ms_debounce)
      show ?thesis
      proof (cases "energy frame > energy_threshold (runtime_params sd)")
        case True
        have a: "sd\<lparr>last_api_call_time := t, total_frames := tf, current_word_length := cw,
                   voice_detected := 0, consecutive_hits := 0\<rparr>
              = sd\<lparr>total_frames := tf, current_word_length := cw,
                   voice_detected := 0, consecutive_hits := 0\<rparr>\<lparr>last_api_call_time := t\<rparr>"
          for tf cw
          by simp
        from True ok voicing show ?thesis
          by (simp add: callback_voicing [OF _ _ _ rate] callback_voicing [OF _ _ _ rate']
              unthrottled_def Let_def a stop_rec_throttle other_events_simps stop_rec_events)
      next
        case False
        have a: "sd\<lparr>last_api_call_time := t, total_frames := tf, silence_frames := sf,
                   consecutive_hits := 0, voice_detected := 0\<rparr>
              = sd\<lparr>total_frames := tf, silence_frames := sf,
                   consecutive_hits := 0, voice_detected := 0\<rparr>\<lparr>last_api_call_time := t\<rparr>"
          for tf sf
          by simp
        from False ok voicing show ?thesis
          by (simp add: callback_silence [OF _ _ _ rate] callback_silence [OF _ _ _ rate']
              unthrottled_def Let_def a stop_rec_throttle other_events_simps stop_rec_events)
      qed
    qed
  qed
qed

lemma run_throttle:
  "unthrottled (run_frames (g\<lparr>debounce_ms := d\<rparr>) hfs (sd\<lparr>last_api_call_time := t\<rparr>))
     = unthrottled (run_frames g hfs sd)"
proof (induction hfs arbitrary: sd t)
  case Nil
  show ?case by (simp add: unthrottled_def)
next
  case (Cons hf rest)
  let ?r1 = "voice_detector_callback (g\<lparr>debounce_ms := d\<rparr>) (fst hf) (snd hf) (sd\<lparr>last_api_call_time := t\<rparr>)"
  let ?r2 = "voice_detector_callback g (fst hf) (snd hf) sd"
  have step: "unthrottled ?r1 = unthrottled ?r2" by (rule callback_throttle)
  show ?case
  proof (cases ?r2)
    case (Inl x)
    with step have "?r1 = Inl x" by (cases ?r1) (simp_all add: unthrottled_def)
    with Inl show ?thesis by (simp add: unthrottled_def)
  next
    case (Inr q2)
    with step obtain q1 where r1: "?r1 = Inr q1"
      by (cases ?r1) (simp_all add: unthrottled_def)
    from step Inr r1 have st: "(fst q1)\<lparr>last_api_call_time := 0\<rparr> = (fst q2)\<lparr>last_api_call_time := 0\<rparr>"
      and ev: "other_events (snd q1) = other_events (snd q2)"
      by (simp_all add: unthrottled_def)
    have "fst q1 = (fst q1)\<lparr>last_api_call_time := 0\<rparr>\<lparr>last_api_call_time := last_api_call_time (fst q1)\<rparr>"
      by simp
    also have "\<dots> = (fst q2)\<lparr>last_api_call_time := last_api_call_time (fst q1)\<rparr>"
      by (simp add: st)
    finally have q1: "fst q1 = (fst q2)\<lparr>last_api_call_time := last_api_call_time (fst q1)\<rparr>" .
    have ih: "unthrottled (run_frames (g\<lparr>debounce_ms := d\<rparr>) rest (fst q1)) = unthrottled (run_frames g rest (fst q2))"
      using Cons.IH [where sd = "fst q2" and t = "last_api_call_time (fst q1)"] q1 by simp
    show ?thesis
    proof (cases "run_frames g rest (fst q2)")
      case (Inl x)
      with ih have "run_frames (g\<lparr>debounce_ms := d\<rparr>) rest (fst q1) = Inl x"
        by (cases "run_frames (g\<lparr>debounce_ms := d\<rparr>) rest (fst q1)") (simp_all add: unthrottled_def)
      with Inl Inr r1 show ?thesis by (simp add: unthrottled_def)
    next
      case r2': (Inr q2')
      with ih obtain q1' where r1': "run_frames (g\<lparr>debounce_ms := d\<rparr>) rest (fst q1) = Inr q1'"
        by (cases "run_frames (g\<lparr>debounce_ms := d\<rparr>) rest (fst q1)") (simp_all add: unthrottled_def)
      from ih r2' r1' have "(fst q1')\<lparr>last_api_call_time := 0\<rparr> = (fst q2')\<lparr>last_api_call_time := 0\<rparr>"
        and "other_events (snd q1') = other_events (snd q2')"
        by (simp_all add: unthrottled_def)
      with ev Inr r1 r1' r2' show ?thesis
        by (simp add: unthrottled_def other_events_simps)
    qed
  qed
qed

text \<open>
  Claim C10. The detection state and the recording directives do not depend on the
  notification throttle. Run the callback on the same frame with any other debounce
  window \<open>d\<close> and any other time \<open>t\<close> of the last voice notification: the outcome is the
  same fault, or session data that differ in \<open>last_api_call_time\<close> at most (so
  \<open>voice_detected\<close>, \<open>consecutive_hits\<close>, \<open>silence_frames\<close> and \<open>current_word_length\<close>
  agree) and events that differ in the voice-start and voice-end notifications at most
  (so the same directives, recorder calls and other notifications, in the same order).
  The same holds for a run of frames.
\<close>

theorem detection_independent_of_throttle:
  "unthrottled (voice_detector_callback (g\<lparr>debounce_ms := d\<rparr>) h frame (sd\<lparr>last_api_call_time := t\<rparr>))
     = unthrottled (voice_detector_callback g h frame sd)
   \<and> unthrottled (run_frames (g\<lparr>debounce_ms := d\<rparr>) hfs (sd\<lparr>last_api_call_time := t\<rparr>))
     = unthrottled (run_frames g hfs sd)"
  by (simp add: callback_throttle run_throttle)

subsection \<open>The debounce window\<close>

lemma callback_other_events:
  "map_sum id (\<lambda>q. other_events (snd q))
       (voice_detector_callback (g\<lparr>debounce_ms := d\<rparr>) h frame (sd\<lparr>last_api_call_time := t\<rparr>))
     = map_sum id (\<lambda>q. other_events (snd q)) (voice_detector_callback g h frame sd)"
proof -
  have "map_sum id (\<lambda>q. other_events (snd q)) r = map_sum id snd (unthrottled r)" for r
    by (cases r) (simp_all add: unthrottled_def)
  then show ?thesis by (simp add: callback_throttle)
qed

lemma debounce_window_exact:
  assumes "- 2147483 \<le> d" "d \<le> 2147483"
  shows "c_int (d * 1000) = d * 1000"
  using assms by (intro c_int_id) simp_all

text \<open>
  Claim C7, for the windows that the \<^verbatim>\<open>int\<close> product of lines 454 and 497 holds. A
  notification is dispatched when \<^verbatim>\<open>voice_detector_api_call\<close> is called. The debounce test
  compares the microseconds since \<open>last_api_call_time\<close> with \<^verbatim>\<open>debounce_ms * 1000\<close>, an
  \<^verbatim>\<open>int\<close> product, which is \<open>debounce_ms\<close> in microseconds for \<open>debounce_ms\<close> from -2147483 to
  2147483. For such a window:
  \<^item> One callback dispatches at most one voice-start or voice-end notification. It
    dispatches one only if strictly more than \<open>debounce_ms\<close> have passed since
    \<open>last_api_call_time\<close>, and then sets \<open>last_api_call_time\<close> to the current time; it
    leaves \<open>last_api_call_time\<close> alone otherwise. So \<open>last_api_call_time\<close> is the time of the
    session's last dispatched voice notification.
  \<^item> After a callback that dispatched a voice notification, a callback within the window
    dispatches none.

  For every window:
  \<^item> The events other than voice notifications are the same for every debounce window and
    every \<open>last_api_call_time\<close>.
  \<^item> A recording that starts dispatches the recording-started notification, a recording
    that stops dispatches the recording-stopped notification with the duration, and the
    word branch dispatches the word-detected notification.
\<close>

theorem voice_notifications_debounced:
  "(- 2147483 \<le> debounce_ms g \<and> debounce_ms g \<le> 2147483
        \<and> voice_detector_callback g h frame sd = Inr (sd', evs) \<longrightarrow>
        length (voice_notifications evs) \<le> 1
      \<and> (voice_notifications evs \<noteq> [] \<longrightarrow>
            debounce_ms g * 1000 < clock_callback h - last_api_call_time sd
          \<and> last_api_call_time sd' = clock_callback h)
      \<and> (voice_notifications evs = [] \<longrightarrow> last_api_call_time sd' = last_api_call_time sd))
   \<and> (- 2147483 \<le> debounce_ms g \<and> debounce_ms g \<le> 2147483
        \<and> voice_detector_callback g h frame sd = Inr (sd', evs) \<and> voice_notifications evs \<noteq> []
        \<and> voice_detector_callback g h2 frame2 sd' = Inr (sd2, evs2)
        \<and> clock_callback h2 - clock_callback h \<le> debounce_ms g * 1000
      \<longrightarrow> voice_notifications evs2 = [])
   \<and> map_sum id (\<lambda>q. other_events (snd q))
         (voice_detector_callback (g\<lparr>debounce_ms := d\<rparr>) h frame (sd\<lparr>last_api_call_time := t\<rparr>))
       = map_sum id (\<lambda>q. other_events (snd q)) (voice_detector_callback g h frame sd)
   \<and> (auto_record (runtime_params sd) \<noteq> 0 \<and> is_recording sd = 0
        \<and> record_start_status h = SWITCH_STATUS_SUCCESS
      \<longrightarrow> Api_call (uuid sd) 2 0 (leg (runtime_params sd))
            \<in> set (snd (snd (voice_detector_start_recording h sd))))
   \<and> (is_recording sd \<noteq> 0 \<and> record_session sd = Some rs
        \<and> record_stop_status h = SWITCH_STATUS_SUCCESS
      \<longrightarrow> Api_call (uuid sd) 3 (c_int ((clock_record_stop h - recording_start_time sd) sdiv 1000000))
              (leg (runtime_params sd))
            \<in> set (snd (snd (voice_detector_stop_recording h sd))))
   \<and> (frame_ok frame \<and> voice_detected sd \<noteq> 0 \<and> frame_ms g = Inr ms
        \<and> energy frame \<le> energy_threshold (runtime_params sd)
        \<and> c_int (c_int (silence_frames sd + 1) * ms) \<le> max_silence (runtime_params sd)
        \<and> between_words_silence (runtime_params sd) < c_int (c_int (silence_frames sd + 1) * ms)
        \<and> min_word_length (runtime_params sd) \<le> current_word_length sd
      \<longrightarrow> map_sum id snd (voice_detector_callback g h frame sd)
            = Inr [Api_call (uuid sd) 4
                     (c_int (c_int (clock_callback h) - word_start_time sd) sdiv 1000000)
                     (leg (runtime_params sd))])"
proof (intro conjI impI)
  assume a: "- 2147483 \<le> debounce_ms g \<and> debounce_ms g \<le> 2147483
        \<and> voice_detector_callback g h frame sd = Inr (sd', evs)"
  then have r: "voice_detector_callback g h frame sd = Inr (sd', evs)" by simp
  from a have w: "c_int (debounce_ms g * 1000) = debounce_ms g * 1000"
    by (simp add: debounce_window_exact)
  from callback_voice_notifications [OF r]
  show "length (voice_notifications evs) \<le> 1" by auto
  {
    assume "voice_notifications evs \<noteq> []"
    with callback_voice_notifications [OF r] w
    show "debounce_ms g * 1000 < clock_callback h - last_api_call_time sd"
      and "last_api_call_time sd' = clock_callback h"
      by auto
  }
  {
    assume "voice_notifications evs = []"
    with callback_voice_notifications [OF r]
    show "last_api_call_time sd' = last_api_call_time sd" by auto
  }
next
  assume a: "- 2147483 \<le> debounce_ms g \<and> debounce_ms g \<le> 2147483
        \<and> voice_detector_callback g h frame sd = Inr (sd', evs) \<and> voice_notifications evs \<noteq> []
        \<and> voice_detector_callback g h2 frame2 sd' = Inr (sd2, evs2)
        \<and> clock_callback h2 - clock_callback h \<le> debounce_ms g * 1000"
  then have r1: "voice_detector_callback g h frame sd = Inr (sd', evs)"
    and r2: "voice_detector_callback g h2 frame2 sd' = Inr (sd2, evs2)"
    by simp_all
  from a have w: "c_int (debounce_ms g * 1000) = debounce_ms g * 1000"
    by (simp add: debounce_window_exact)
  from callback_voice_notifications [OF r1] a have "last_api_call_time sd' = clock_callback h"
    by auto
  with callback_voice_notifications [OF r2] a w show "voice_notifications evs2 = []"
    by auto
next
  show "map_sum id (\<lambda>q. other_events (snd q))
         (voice_detector_callback (g\<lparr>debounce_ms := d\<rparr>) h frame (sd\<lparr>last_api_call_time := t\<rparr>))
       = map_sum id (\<lambda>q. other_events (snd q)) (voice_detector_callback g h frame sd)"
    by (rule callback_other_events)
next
  assume "auto_record (runtime_params sd) \<noteq> 0 \<and> is_recording sd = 0
        \<and> record_start_status h = SWITCH_STATUS_SUCCESS"
  then show "Api_call (uuid sd) 2 0 (leg (runtime_params sd))
            \<in> set (snd (snd (voice_detector_start_recording h sd)))"
    by (simp add: voice_detector_start_recording_def Let_def)
next
  assume "is_recording sd \<noteq> 0 \<and> record_session sd = Some rs
        \<and> record_stop_status h = SWITCH_STATUS_SUCCESS"
  then show "Api_call (uuid sd) 3 (c_int ((clock_record_stop h - recording_start_time sd) sdiv 1000000))
              (leg (runtime_params sd))
            \<in> set (snd (snd (voice_detector_stop_recording h sd)))"
    by (simp add: voice_detector_stop_recording_def Let_def)
next
  assume "frame_ok frame \<and> voice_detected sd \<noteq> 0 \<and> frame_ms g = Inr ms
        \<and> energy frame \<le> energy_threshold (runtime_params sd)
        \<and> c_int (c_int (silence_frames sd + 1) * ms) \<le> max_silence (runtime_params sd)
        \<and> between_words_silence (runtime_params sd) < c_int (c_int (silence_frames sd + 1) * ms)
        \<and> min_word_length (runtime_params sd) \<le> current_word_length sd"
  then show "map_sum id snd (voice_detector_callback g h frame sd)
            = Inr [Api_call (uuid sd) 4
                     (c_int (c_int (clock_callback h) - word_start_time sd) sdiv 1000000)
                     (leg (runtime_params sd))]"
    by (simp add: callback_silence Let_def)
qed

theorem voice_notifications_debounced_witness:
  "(\<exists>sd1 evs1 sd2 evs2.
       voice_detector_callback default_globals (host_at 1700000000000000) (frame_of (1 / 5))
           (new_session default_globals ''a1'' (default_runtime_params\<lparr>hits := 3\<rparr>)) = Inr (sd1, evs1)
     \<and> voice_notifications evs1 \<noteq> []
     \<and> voice_detector_callback default_globals (host_at 1700000000020000) (frame_of (1 / 5)) sd1
           = Inr (sd2, evs2)
     \<and> clock_callback (host_at 1700000000020000) - clock_callback (host_at 1700000000000000)
           \<le> debounce_ms default_globals * 1000
     \<and> voice_notifications evs2 = []
     \<and> debounce_ms default_globals * 1000
           < clock_callback (host_at 1700000000000000)
             - last_api_call_time (new_session default_globals ''a1'' (default_runtime_params\<lparr>hits := 3\<rparr>))
     \<and> last_api_call_time sd1 = 1700000000000000)
   \<and> Api_call ''a1'' 2 0 ''a''
        \<in> set (snd (snd (voice_detector_start_recording (host_at 1700000000000000)
                   (new_session default_globals ''a1'' default_runtime_params))))
   \<and> Api_call ''a1'' 3 3 ''a''
        \<in> set (snd (snd (voice_detector_stop_recording (host_at 1700000003000000)
                   ((new_session default_globals ''a1'' default_runtime_params)
                      \<lparr>is_recording := 1, record_session := Some 1,
                       recording_start_time := 1700000000000000\<rparr>))))
   \<and> map_sum id snd
         (voice_detector_callback default_globals (host_at 1700000000000000) (frame_of (1 / 100))
            ((new_session default_globals ''a1'' default_runtime_params)
               \<lparr>voice_detected := 1, silence_frames := 2, current_word_length := 120,
                word_start_time := c_int 1699999999000000\<rparr>))
       = Inr [Api_call ''a1'' 4 1 ''a'']"
proof -
  let ?g = default_globals
  let ?start = "new_session default_globals ''a1'' (default_runtime_params\<lparr>hits := 3\<rparr>)"
  let ?h1 = "host_at 1700000000000000"
  let ?h2 = "host_at 1700000000020000"
  let ?f = "frame_of (1 / 5)"
  have range: "- 2147483 \<le> debounce_ms ?g \<and> debounce_ms ?g \<le> 2147483"
    by (simp add: default_globals_def)
  obtain sd1 evs1 where r1: "voice_detector_callback ?g ?h1 ?f ?start = Inr (sd1, evs1)"
    and v1: "voice_notifications evs1 \<noteq> []"
    by (simp add: callback_onset scenario_defs Let_def voice_notifications_simps c_int_def)
  obtain sd2 evs2 where r2: "voice_detector_callback ?g ?h2 ?f sd1 = Inr (sd2, evs2)"
    using callback_returns [OF frame_ms_default, of ?h2 ?f sd1] by auto
  have w: "clock_callback ?h2 - clock_callback ?h1 \<le> debounce_ms ?g * 1000"
    by (simp add: scenario_defs)
  note T = voice_notifications_debounced [of ?g ?h1 ?f ?start sd1 evs1 ?h2 ?f sd2 evs2]
  from T range r1 v1 r2 w have "voice_notifications evs2 = []" by blast
  moreover from T range r1 v1 have "debounce_ms ?g * 1000 < clock_callback ?h1 - last_api_call_time ?start"
    and "last_api_call_time sd1 = clock_callback ?h1" by blast+
  ultimately have A: "\<exists>sd1 evs1 sd2 evs2.
       voice_detector_callback ?g ?h1 ?f ?start = Inr (sd1, evs1)
     \<and> voice_notifications evs1 \<noteq> []
     \<and> voice_detector_callback ?g ?h2 ?f sd1 = Inr (sd2, evs2)
     \<and> clock_callback ?h2 - clock_callback ?h1 \<le> debounce_ms ?g * 1000
     \<and> voice_notifications evs2 = []
     \<and> debounce_ms ?g * 1000 < clock_callback ?h1 - last_api_call_time ?start
     \<and> last_api_call_time sd1 = 1700000000000000"
    using r1 v1 r2 w by (auto simp add: host_at_def)
  let ?s = "new_session default_globals ''a1'' default_runtime_params"
  have B: "Api_call ''a1'' 2 0 ''a'' \<in> set (snd (snd (voice_detector_start_recording ?h1 ?s)))"
    using voice_notifications_debounced [where sd = ?s and h = ?h1]
    by (simp add: scenario_defs)
  let ?sr = "?s\<lparr>is_recording := 1, record_session := Some 1, recording_start_time := 1700000000000000\<rparr>"
  have C: "Api_call ''a1'' 3 3 ''a''
        \<in> set (snd (snd (voice_detector_stop_recording (host_at 1700000003000000) ?sr)))"
    using voice_notifications_debounced [where sd = ?sr and h = "host_at 1700000003000000" and rs = 1]
    by (simp add: scenario_defs c_int_def signed_divide_int_def)
  let ?sv = "?s\<lparr>voice_detected := 1, silence_frames := 2, current_word_length := 120,
                word_start_time := c_int 1699999999000000\<rparr>"
  have D: "map_sum id snd (voice_detector_callback ?g ?h1 (frame_of (1 / 100)) ?sv)
       = Inr [Api_call ''a1'' 4 1 ''a'']"
    using voice_notifications_debounced [where sd = ?sv and h = ?h1 and g = ?g
        and frame = "frame_of (1 / 100)" and ms = 20]
    by (simp add: frame_ms_default) (simp add: scenario_defs c_int_def signed_divide_int_def)
  from A B C D show ?thesis by blast
qed

text \<open>
  Beyond these windows the claim fails. With \<open>debounce_ms = 2147484\<close> the product
  \<^verbatim>\<open>debounce_ms * 1000\<close> does not fit an \<^verbatim>\<open>int\<close>; the compiled test compares with
  -2147483296, and two frames above the threshold, 20 ms apart, both dispatch the
  voice-start notification.
\<close>

theorem voice_start_twice_in_window_counterexample:
  "voice_notifications
     (events_of
        (run_frames (default_globals\<lparr>debounce_ms := 2147484\<rparr>)
           [(host_at 1700000000000000, frame_of (1 / 5)),
            (host_at 1700000000020000, frame_of (1 / 5))]
           (new_session (default_globals\<lparr>debounce_ms := 2147484\<rparr>) ''a1''
              (default_runtime_params\<lparr>hits := 3\<rparr>))))
     = [Api_call ''a1'' 1 200 ''a'', Api_call ''a1'' 1 200 ''a'']
   \<and> clock_callback (host_at 1700000000020000) - clock_callback (host_at 1700000000000000)
       < debounce_ms (default_globals\<lparr>debounce_ms := 2147484\<rparr>) * 1000
   \<and> c_int (debounce_ms (default_globals\<lparr>debounce_ms := 2147484\<rparr>) * 1000) = - 2147483296"
  by (simp add: callback_onset scenario_defs Let_def events_of_def voice_notifications_simps
      int_of_float_def c_int_def payload_values)

subsection \<open>Runs of frames\<close>

lemma run_frames_append:
  "run_frames g (xs @ ys) sd =
     (case run_frames g xs sd of
        Inl x \<Rightarrow> Inl x
      | Inr r \<Rightarrow>
          (case run_frames g ys (fst r) of
             Inl x \<Rightarrow> Inl x
           | Inr r' \<Rightarrow> Inr (fst r', snd r @ snd r')))"
  by (induction xs arbitrary: sd) (auto split: sum.splits)

lemma run_frames_one:
  "run_frames g [hf] sd = voice_detector_callback g (fst hf) (snd hf) sd"
  by (simp split: sum.splits)

text \<open>A below-threshold frame while voice is detected, up to the maximum silence and past it.\<close>

lemma silence_step_keeps:
  assumes "voice_detected sd \<noteq> 0" "frame_ms g = Inr ms" "below (runtime_params sd) frame"
    "c_int (c_int (silence_frames sd + 1) * ms) \<le> max_silence (runtime_params sd)"
  shows "\<exists>sd' evs. voice_detector_callback g h frame sd = Inr (sd', evs)
      \<and> voice_detected sd' = voice_detected sd
      \<and> silence_frames sd' = c_int (silence_frames sd + 1)
      \<and> runtime_params sd' = runtime_params sd
      \<and> last_api_call_time sd' = last_api_call_time sd
      \<and> uuid sd' = uuid sd
      \<and> list_all is_word_detected evs"
  using assms by (simp add: callback_silence below_def Let_def)

lemma silence_run_keeps:
  assumes "voice_detected sd \<noteq> 0" "frame_ms g = Inr ms"
    "list_all (\<lambda>hf. below (runtime_params sd) (snd hf)) hfs"
    "\<forall>k. 1 \<le> k \<and> k \<le> int (length hfs) \<longrightarrow>
       c_int (c_int (silence_frames sd + k) * ms) \<le> max_silence (runtime_params sd)"
  shows "\<exists>sd' evs. run_frames g hfs sd = Inr (sd', evs)
      \<and> voice_detected sd' = voice_detected sd
      \<and> c_int (silence_frames sd') = c_int (silence_frames sd + int (length hfs))
      \<and> runtime_params sd' = runtime_params sd
      \<and> last_api_call_time sd' = last_api_call_time sd
      \<and> uuid sd' = uuid sd
      \<and> list_all is_word_detected evs"
  using assms
proof (induction hfs arbitrary: sd)
  case Nil
  then show ?case by simp
next
  case (Cons hf rest)
  from Cons.prems(4) have "c_int (c_int (silence_frames sd + 1) * ms) \<le> max_silence (runtime_params sd)"
    by (auto dest: spec [of _ 1])
  with Cons.prems obtain sd1 evs1 where
    r1: "voice_detector_callback g (fst hf) (snd hf) sd = Inr (sd1, evs1)"
    and k1: "voice_detected sd1 = voice_detected sd" "silence_frames sd1 = c_int (silence_frames sd + 1)"
      "runtime_params sd1 = runtime_params sd" "last_api_call_time sd1 = last_api_call_time sd"
      "uuid sd1 = uuid sd" "list_all is_word_detected evs1"
    using silence_step_keeps [of sd g ms "snd hf" "fst hf"] by auto
  have shift: "c_int (silence_frames sd1 + k) = c_int (silence_frames sd + (k + 1))" for k
    using c_int_add_left [of "silence_frames sd + 1" k] by (simp add: k1 ac_simps)
  have "\<forall>k. 1 \<le> k \<and> k \<le> int (length rest) \<longrightarrow>
       c_int (c_int (silence_frames sd1 + k) * ms) \<le> max_silence (runtime_params sd1)"
  proof (intro allI impI)
    fix k assume "1 \<le> k \<and> k \<le> int (length rest)"
    then have "1 \<le> k + 1 \<and> k + 1 \<le> int (length (hf # rest))" by simp
    with Cons.prems(4) have "c_int (c_int (silence_frames sd + (k + 1)) * ms) \<le> max_silence (runtime_params sd)"
      by blast
    then show "c_int (c_int (silence_frames sd1 + k) * ms) \<le> max_silence (runtime_params sd1)"
      by (simp only: shift k1(3))
  qed
  with Cons.IH [of sd1] Cons.prems k1 obtain sd2 evs2 where
    r2: "run_frames g rest sd1 = Inr (sd2, evs2)"
    and k2: "voice_detected sd2 = voice_detected sd1"
      "c_int (silence_frames sd2) = c_int (silence_frames sd1 + int (length rest))"
      "runtime_params sd2 = runtime_params sd1" "last_api_call_time sd2 = last_api_call_time sd1"
      "uuid sd2 = uuid sd1" "list_all is_word_detected evs2"
    by auto
  from k2(2) have "c_int (silence_frames sd2) = c_int (silence_frames sd + int (length (hf # rest)))"
    by (simp add: shift ac_simps)
  with r1 r2 k1 k2 show ?case by simp
qed

lemma idle_silence_run:
  assumes "voice_detected sd = 0" "list_all (\<lambda>hf. below (runtime_params sd) (snd hf)) hfs"
  shows "\<exists>sd'. run_frames g hfs sd = Inr (sd', []) \<and> voice_detected sd' = 0"
  using assms
proof (induction hfs arbitrary: sd)
  case Nil
  then show ?case by simp
next
  case (Cons hf rest)
  let ?sd1 = "sd\<lparr>total_frames := c_int (total_frames sd + 1)\<rparr>"
  from Cons.prems have r1: "voice_detector_callback g (fst hf) (snd hf) sd = Inr (?sd1, [])"
    by (simp add: callback_idle_silence below_def)
  from Cons.prems Cons.IH [of ?sd1] obtain sd' where
    "run_frames g rest ?sd1 = Inr (sd', [])" "voice_detected sd' = 0" by auto
  with r1 show ?case by simp
qed

lemma stop_rec_event_kinds:
  "filter is_word_detected (snd (snd (voice_detector_stop_recording h sd))) = []"
  "filter is_voice_end (snd (snd (voice_detector_stop_recording h sd))) = []"
  "filter is_voice_start (snd (snd (voice_detector_stop_recording h sd))) = []"
  by (simp_all add: voice_detector_stop_recording_def Let_def split: option.splits)


lemma silence_step_ends:
  assumes "voice_detected sd \<noteq> 0" "frame_ms g = Inr ms" "below (runtime_params sd) frame"
    "max_silence (runtime_params sd) < c_int (c_int (silence_frames sd + 1) * ms)"
  shows "\<exists>sd' evs. voice_detector_callback g h frame sd = Inr (sd', evs)
      \<and> voice_detected sd' = 0
      \<and> runtime_params sd' = runtime_params sd
      \<and> hd evs = Stop_recording_directive \<and> evs \<noteq> []
      \<and> filter is_word_detected evs = []
      \<and> filter is_voice_end evs =
          (if c_int (debounce_ms g * 1000) < clock_callback h - last_api_call_time sd
           then [Api_call (uuid sd) 0 (int_of_float (to_float (energy frame * 1000))) (leg (runtime_params sd))]
           else [])"
  using assms
  by (simp add: callback_silence below_def Let_def stop_rec_keeps stop_rec_event_kinds)

lemma word_events_only:
  assumes "list_all is_word_detected evs"
  shows "filter is_voice_end evs = []" and "filter is_voice_start evs = []"
    and "Stop_recording_directive \<notin> set evs" and "Start_recording_directive \<notin> set evs"
proof -
  have "is_word_detected ev \<Longrightarrow> \<not> is_voice_end ev \<and> \<not> is_voice_start ev
      \<and> ev \<noteq> Stop_recording_directive \<and> ev \<noteq> Start_recording_directive" for ev
    by (cases ev) auto
  with assms show "filter is_voice_end evs = []" and "filter is_voice_start evs = []"
    and "Stop_recording_directive \<notin> set evs" and "Start_recording_directive \<notin> set evs"
    by (auto simp add: list_all_iff filter_empty_conv)
qed

subsection \<open>The end of voice\<close>

text \<open>
  Claim C3, with the debounce window. Voice is detected and a run of processed frames at
  or below the threshold follows. The silence duration of a frame is what line 489
  computes after the increment of line 485, \<open>silence_frames\<close> times the milliseconds \<open>ms\<close> of
  a frame in \<^verbatim>\<open>int\<close> arithmetic: on the \<open>k\<close>-th frame of the run it is
  \<open>c_int (c_int (silence_frames sd + k) * ms)\<close>. \<open>pre\<close> are the frames on which it stays
  within \<open>max_silence\<close>; \<open>hf\<close> is the first frame on which it exceeds \<open>max_silence\<close>; \<open>post\<close>
  is the rest of the run.
  \<^item> No frame of \<open>pre\<close> dispatches voice-end or issues a stop-recording directive, and
    voice stays detected.
  \<^item> The frame \<open>hf\<close> sets \<open>voice_detected\<close> to 0 and issues the stop-recording directive.
    It dispatches the voice-end notification exactly when the debounce test of line 497
    passes: the microseconds since \<open>last_api_call_time\<close> exceed the \<^verbatim>\<open>int\<close> product
    \<^verbatim>\<open>debounce_ms * 1000\<close>, which is \<open>debounce_ms\<close> in microseconds for \<open>debounce_ms\<close> from
    -2147483 to 2147483.
  \<^item> The frames of \<open>post\<close> do nothing.
  So voice-end is dispatched at most once in the run, and only on \<open>hf\<close>.
\<close>

theorem voice_end_on_first_frame_past_max_silence:
  assumes "voice_detected sd \<noteq> 0" and "frame_ms g = Inr ms"
    and "list_all (\<lambda>hf. below (runtime_params sd) (snd hf)) (pre @ hf # post)"
    and "\<forall>k. 1 \<le> k \<and> k \<le> int (length pre) \<longrightarrow>
           c_int (c_int (silence_frames sd + k) * ms) \<le> max_silence (runtime_params sd)"
    and "max_silence (runtime_params sd)
           < c_int (c_int (silence_frames sd + int (length pre) + 1) * ms)"
  shows "\<exists>sd1 evs1 sd2 evs2 sd3.
      run_frames g pre sd = Inr (sd1, evs1)
    \<and> voice_detected sd1 \<noteq> 0
    \<and> filter is_voice_end evs1 = []
    \<and> Stop_recording_directive \<notin> set evs1
    \<and> voice_detector_callback g (fst hf) (snd hf) sd1 = Inr (sd2, evs2)
    \<and> voice_detected sd2 = 0
    \<and> Stop_recording_directive \<in> set evs2
    \<and> filter is_voice_end evs2 =
          (if c_int (debounce_ms g * 1000) < clock_callback (fst hf) - last_api_call_time sd
           then [Api_call (uuid sd) 0 (int_of_float (to_float (energy (snd hf) * 1000)))
                   (leg (runtime_params sd))]
           else [])
    \<and> (- 2147483 \<le> debounce_ms g \<and> debounce_ms g \<le> 2147483
          \<longrightarrow> c_int (debounce_ms g * 1000) = debounce_ms g * 1000)
    \<and> run_frames g post sd2 = Inr (sd3, [])
    \<and> voice_detected sd3 = 0
    \<and> run_frames g (pre @ hf # post) sd = Inr (sd3, evs1 @ evs2)
    \<and> length (filter is_voice_end (evs1 @ evs2)) \<le> 1"
proof -
  let ?p = "runtime_params sd"
  from assms(3) have pre: "list_all (\<lambda>hf. below ?p (snd hf)) pre"
    and hf: "below ?p (snd hf)" and post: "list_all (\<lambda>hf. below ?p (snd hf)) post"
    by simp_all
  from silence_run_keeps [OF assms(1,2) pre assms(4)] obtain sd1 evs1 where
    r1: "run_frames g pre sd = Inr (sd1, evs1)"
    and k1: "voice_detected sd1 = voice_detected sd"
      "c_int (silence_frames sd1) = c_int (silence_frames sd + int (length pre))"
      "runtime_params sd1 = ?p" "last_api_call_time sd1 = last_api_call_time sd" "uuid sd1 = uuid sd"
    and w1: "list_all is_word_detected evs1"
    by blast
  from k1 assms(1) have v1: "voice_detected sd1 \<noteq> 0" by simp
  from k1 hf have b1: "below (runtime_params sd1) (snd hf)" by simp
  have "c_int (silence_frames sd1 + 1) = c_int (c_int (silence_frames sd1) + 1)"
    by (simp only: c_int_add_left)
  also have "\<dots> = c_int (silence_frames sd + int (length pre) + 1)"
    by (simp only: k1(2) c_int_add_left)
  finally have c1: "max_silence (runtime_params sd1) < c_int (c_int (silence_frames sd1 + 1) * ms)"
    using assms(5) k1(3) by simp
  from silence_step_ends [OF v1 assms(2) b1 c1, of "fst hf"] obtain sd2 evs2 where
    r2: "voice_detector_callback g (fst hf) (snd hf) sd1 = Inr (sd2, evs2)"
    and k2: "voice_detected sd2 = 0" "runtime_params sd2 = runtime_params sd1"
      "hd evs2 = Stop_recording_directive" "evs2 \<noteq> []"
    and e2: "filter is_voice_end evs2 =
          (if c_int (debounce_ms g * 1000) < clock_callback (fst hf) - last_api_call_time sd1
           then [Api_call (uuid sd1) 0 (int_of_float (to_float (energy (snd hf) * 1000))) (leg (runtime_params sd1))]
           else [])"
    by blast
  from k2 have s2: "Stop_recording_directive \<in> set evs2"
    by (cases evs2) auto
  from post k1 k2 have "list_all (\<lambda>hf. below (runtime_params sd2) (snd hf)) post" by simp
  from idle_silence_run [OF k2(1) this, of g] obtain sd3 where
    r3: "run_frames g post sd2 = Inr (sd3, [])" and k3: "voice_detected sd3 = 0" by blast
  have whole: "run_frames g (pre @ hf # post) sd = Inr (sd3, evs1 @ evs2)"
    using r1 r2 r3 by (simp add: run_frames_append)
  have once: "length (filter is_voice_end (evs1 @ evs2)) \<le> 1"
    using word_events_only(1) [OF w1] e2 by simp
  have win: "- 2147483 \<le> debounce_ms g \<and> debounce_ms g \<le> 2147483
          \<longrightarrow> c_int (debounce_ms g * 1000) = debounce_ms g * 1000"
    by (simp add: debounce_window_exact)
  from r1 v1 word_events_only(1,3) [OF w1] r2 k2(1) s2 e2 k1 r3 k3 whole once win
  show ?thesis by auto
qed

theorem voice_end_on_first_frame_past_max_silence_witness:
  "filter is_voice_end
     (events_of
        (run_frames default_globals
           [(host_at 1700000000000000, frame_of (1 / 100)),
            (host_at 1700000000020000, frame_of (1 / 100)),
            (host_at 1700000000040000, frame_of (1 / 100))]
           ((new_session default_globals ''a1'' default_runtime_params)\<lparr>voice_detected := 1, silence_frames := 99\<rparr>)))
     = [Api_call ''a1'' 0 10 ''a'']
   \<and> map_option voice_detected
       (final_session
          (run_frames default_globals
             [(host_at 1700000000000000, frame_of (1 / 100)),
              (host_at 1700000000020000, frame_of (1 / 100)),
              (host_at 1700000000040000, frame_of (1 / 100))]
             ((new_session default_globals ''a1'' default_runtime_params)\<lparr>voice_detected := 1, silence_frames := 99\<rparr>)))
     = Some 0"
proof -
  let ?g = default_globals
  let ?sd = "(new_session default_globals ''a1'' default_runtime_params)\<lparr>voice_detected := 1, silence_frames := 99\<rparr>"
  let ?pre = "[(host_at 1700000000000000, frame_of (1 / 100))]"
  let ?hf = "(host_at 1700000000020000, frame_of (1 / 100))"
  let ?post = "[(host_at 1700000000040000, frame_of (1 / 100))]"
  have h1: "voice_detected ?sd \<noteq> 0" by simp
  have h3: "list_all (\<lambda>hf. below (runtime_params ?sd) (snd hf)) (?pre @ ?hf # ?post)"
    by (simp add: below_def scenario_defs)
  have h4: "\<forall>k. 1 \<le> k \<and> k \<le> int (length ?pre) \<longrightarrow>
           c_int (c_int (silence_frames ?sd + k) * 20) \<le> max_silence (runtime_params ?sd)"
    by (auto simp add: new_session_def default_runtime_params_def c_int_def)
  have h5: "max_silence (runtime_params ?sd)
           < c_int (c_int (silence_frames ?sd + int (length ?pre) + 1) * 20)"
    by (simp add: new_session_def default_runtime_params_def c_int_def)
  from voice_end_on_first_frame_past_max_silence [OF h1 frame_ms_default h3 h4 h5]
  obtain sd1 evs1 sd2 evs2 sd3 where
    "run_frames ?g ?pre ?sd = Inr (sd1, evs1)"
    and "voice_detector_callback ?g (fst ?hf) (snd ?hf) sd1 = Inr (sd2, evs2)"
    and "filter is_voice_end evs1 = []"
    and "filter is_voice_end evs2 =
          (if c_int (debounce_ms ?g * 1000) < clock_callback (fst ?hf) - last_api_call_time ?sd
           then [Api_call (uuid ?sd) 0 (int_of_float (to_float (energy (snd ?hf) * 1000))) (leg (runtime_params ?sd))]
           else [])"
    and "voice_detected sd3 = 0"
    and "run_frames ?g (?pre @ ?hf # ?post) ?sd = Inr (sd3, evs1 @ evs2)"
    by blast
  then show ?thesis
    by (simp add: events_of_def final_session_def scenario_defs int_of_float_def c_int_def payload_values)
qed

text \<open>
  Without the condition on the window the claim fails. With a debounce window of 5000 ms
  and the last voice notification 2040 ms back, the frame that takes the silence past
  \<open>max_silence\<close> ends the voice, and neither it nor the next frame dispatches voice-end.
\<close>

theorem voice_end_suppressed_counterexample:
  "frame_ms (default_globals\<lparr>debounce_ms := 5000\<rparr>) = Inr 20
   \<and> max_silence default_runtime_params
     < c_int
         (c_int
            (silence_frames
               ((new_session default_globals ''a1'' default_runtime_params)
                  \<lparr>voice_detected := 1, silence_frames := 100,
                   last_api_call_time := 1699999997960000\<rparr>) + 1)
          * 20)
   \<and> filter is_voice_end
       (events_of
          (run_frames (default_globals\<lparr>debounce_ms := 5000\<rparr>)
             [(host_at 1700000000000000, frame_of (1 / 100)),
              (host_at 1700000000020000, frame_of (1 / 100))]
             ((new_session default_globals ''a1'' default_runtime_params)
                \<lparr>voice_detected := 1, silence_frames := 100,
                 last_api_call_time := 1699999997960000\<rparr>)))
     = []
   \<and> map_option voice_detected
       (final_session
          (run_frames (default_globals\<lparr>debounce_ms := 5000\<rparr>)
             [(host_at 1700000000000000, frame_of (1 / 100)),
              (host_at 1700000000020000, frame_of (1 / 100))]
             ((new_session default_globals ''a1'' default_runtime_params)
                \<lparr>voice_detected := 1, silence_frames := 100,
                 last_api_call_time := 1699999997960000\<rparr>)))
     = Some 0"
  by (simp add: frame_ms_20 callback_silence_20 callback_idle_silence scenario_defs
      Let_def voice_detector_stop_recording_def events_of_def final_session_def c_int_def)

subsection \<open>The word that is too long\<close>

lemma stop_rec_maximum_word_length:
  "voice_detector_stop_recording h (sd\<lparr>runtime_params := (runtime_params sd)\<lparr>maximum_word_length := m\<rparr>\<rparr>) =
     (fst (voice_detector_stop_recording h sd),
      (fst (snd (voice_detector_stop_recording h sd)))
        \<lparr>runtime_params := (runtime_params sd)\<lparr>maximum_word_length := m\<rparr>\<rparr>,
      snd (snd (voice_detector_stop_recording h sd)))"
  by (simp add: voice_detector_stop_recording_def Let_def split: option.splits)

lemma stop_rec_own_params:
  "(fst (snd (voice_detector_stop_recording h sd)))\<lparr>runtime_params := runtime_params sd\<rparr>
     = fst (snd (voice_detector_stop_recording h sd))"
  by (simp add: voice_detector_stop_recording_def Let_def split: option.splits)

text \<open>A frame at or below the threshold is handled the same whatever \<open>maximum_word_length\<close> is.\<close>

lemma below_ignores_maximum_word_length:
  assumes "below (runtime_params sd) frame"
  shows "map_sum id (\<lambda>q. ((fst q)\<lparr>runtime_params := runtime_params sd\<rparr>, snd q))
           (voice_detector_callback g h frame
              (sd\<lparr>runtime_params := (runtime_params sd)\<lparr>maximum_word_length := m\<rparr>\<rparr>))
         = voice_detector_callback g h frame sd"
proof -
  let ?sd = "sd\<lparr>runtime_params := (runtime_params sd)\<lparr>maximum_word_length := m\<rparr>\<rparr>"
  from assms have ok: "frame_ok frame" and e: "energy frame \<le> energy_threshold (runtime_params sd)"
    by (simp_all add: below_def)
  from e have e': "energy frame \<le> energy_threshold (runtime_params ?sd)" by simp
  show ?thesis
  proof (cases "voice_detected sd = 0")
    case True
    then have "voice_detected ?sd = 0" by simp
    from callback_idle_silence [OF ok e' this] callback_idle_silence [OF ok e True]
    show ?thesis by simp
  next
    case voicing: False
    then have voicing': "voice_detected ?sd \<noteq> 0" by simp
    show ?thesis
    proof (cases "frame_ms g")
      case (Inl x)
      from callback_fault [OF ok voicing' Inl] callback_fault [OF ok voicing Inl]
      show ?thesis by simp
    next
      case (Inr ms)
      have a: "sd\<lparr>runtime_params := p', total_frames := tf, silence_frames := sf,
                 consecutive_hits := 0, voice_detected := 0\<rparr>
            = sd\<lparr>total_frames := tf, silence_frames := sf,
                 consecutive_hits := 0, voice_detected := 0\<rparr>\<lparr>runtime_params := p'\<rparr>"
        for p' tf sf
        by simp
      let ?c = "sd\<lparr>total_frames := c_int (total_frames sd + 1),
                 silence_frames := c_int (silence_frames sd + 1),
                 consecutive_hits := 0, voice_detected := 0\<rparr>"
      have b: "(fst (snd (voice_detector_stop_recording h ?c)))\<lparr>runtime_params := runtime_params sd\<rparr>
            = fst (snd (voice_detector_stop_recording h ?c))"
        using stop_rec_own_params [where h = h and sd = ?c] by simp
      have c: "runtime_params ?c = runtime_params sd" by simp
      have d: "voice_detector_stop_recording h
                 (?c\<lparr>runtime_params := (runtime_params sd)\<lparr>maximum_word_length := m\<rparr>\<rparr>) =
         (fst (voice_detector_stop_recording h ?c),
          (fst (snd (voice_detector_stop_recording h ?c)))
            \<lparr>runtime_params := (runtime_params sd)\<lparr>maximum_word_length := m\<rparr>\<rparr>,
          snd (snd (voice_detector_stop_recording h ?c)))"
        using stop_rec_maximum_word_length [where h = h and sd = ?c and m = m] by (simp only: c)
      have f: "X\<lparr>runtime_params := p', last_api_call_time := t, runtime_params := p\<rparr>
            = X\<lparr>runtime_params := p\<rparr>\<lparr>last_api_call_time := t\<rparr>" for X :: voice_detector_session_t and p' t p
        by simp
      show ?thesis
        by (simp add: callback_silence [OF ok e' voicing' Inr] callback_silence [OF ok e voicing Inr]
            Let_def a d f b)
    qed
  qed
qed

text \<open>
  Claim C5, on the frame that aborts. The milliseconds \<open>ms\<close> of a frame are added to
  \<open>current_word_length\<close> in \<^verbatim>\<open>int\<close> arithmetic.
  \<^item> Voice is detected and a processed frame above the threshold arrives. The callback
    clears \<open>consecutive_hits\<close> and advances \<open>current_word_length\<close> by the milliseconds of a
    frame. If the advanced length exceeds \<open>maximum_word_length\<close>, this same frame sets
    \<open>voice_detected\<close> to 0 and issues the stop-recording directive; otherwise voice stays
    detected and nothing is emitted. Neither way is a word-detected or a voice-end
    notification dispatched.
  \<^item> A processed frame at or below the threshold is handled without regard to
    \<open>maximum_word_length\<close>: the outcome is the same for every value \<open>m\<close> of that parameter.
    While voice is detected and the silence duration of the frame stays within
    \<open>max_silence\<close>, it keeps \<open>voice_detected\<close> and issues no stop-recording directive,
    whatever \<open>current_word_length\<close> is.
\<close>

theorem word_too_long_abort:
  "(voice_detected sd \<noteq> 0 \<and> frame_ms g = Inr ms \<and> above (runtime_params sd) frame \<longrightarrow>
      (\<exists>sd' evs. voice_detector_callback g h frame sd = Inr (sd', evs)
        \<and> current_word_length sd' = c_int (current_word_length sd + ms)
        \<and> consecutive_hits sd' = 0
        \<and> filter is_word_detected evs = []
        \<and> filter is_voice_end evs = []
        \<and> (if maximum_word_length (runtime_params sd) < c_int (current_word_length sd + ms)
            then voice_detected sd' = 0 \<and> evs \<noteq> [] \<and> hd evs = Stop_recording_directive
            else voice_detected sd' = voice_detected sd \<and> evs = [])))
   \<and> (below (runtime_params sd) frame \<longrightarrow>
        map_sum id (\<lambda>q. ((fst q)\<lparr>runtime_params := runtime_params sd\<rparr>, snd q))
           (voice_detector_callback g h frame
              (sd\<lparr>runtime_params := (runtime_params sd)\<lparr>maximum_word_length := m\<rparr>\<rparr>))
         = voice_detector_callback g h frame sd)
   \<and> (voice_detected sd \<noteq> 0 \<and> frame_ms g = Inr ms \<and> below (runtime_params sd) frame
        \<and> c_int (c_int (silence_frames sd + 1) * ms) \<le> max_silence (runtime_params sd) \<longrightarrow>
      (\<exists>sd' evs. voice_detector_callback g h frame sd = Inr (sd', evs)
        \<and> voice_detected sd' = voice_detected sd
        \<and> Stop_recording_directive \<notin> set evs))"
proof (intro conjI impI)
  assume "voice_detected sd \<noteq> 0 \<and> frame_ms g = Inr ms \<and> above (runtime_params sd) frame"
  then show "\<exists>sd' evs. voice_detector_callback g h frame sd = Inr (sd', evs)
        \<and> current_word_length sd' = c_int (current_word_length sd + ms)
        \<and> consecutive_hits sd' = 0
        \<and> filter is_word_detected evs = []
        \<and> filter is_voice_end evs = []
        \<and> (if maximum_word_length (runtime_params sd) < c_int (current_word_length sd + ms)
            then voice_detected sd' = 0 \<and> evs \<noteq> [] \<and> hd evs = Stop_recording_directive
            else voice_detected sd' = voice_detected sd \<and> evs = [])"
    by (simp add: callback_voicing above_def Let_def stop_rec_keeps stop_rec_event_kinds)
next
  assume "below (runtime_params sd) frame"
  then show "map_sum id (\<lambda>q. ((fst q)\<lparr>runtime_params := runtime_params sd\<rparr>, snd q))
           (voice_detector_callback g h frame
              (sd\<lparr>runtime_params := (runtime_params sd)\<lparr>maximum_word_length := m\<rparr>\<rparr>))
         = voice_detector_callback g h frame sd"
    by (rule below_ignores_maximum_word_length)
next
  assume a: "voice_detected sd \<noteq> 0 \<and> frame_ms g = Inr ms \<and> below (runtime_params sd) frame
        \<and> c_int (c_int (silence_frames sd + 1) * ms) \<le> max_silence (runtime_params sd)"
  then obtain sd' evs where r: "voice_detector_callback g h frame sd = Inr (sd', evs)"
    and k: "voice_detected sd' = voice_detected sd" and w: "list_all is_word_detected evs"
    using silence_step_keeps [of sd g ms frame h] by auto
  from word_events_only(3) [OF w] r k
  show "\<exists>sd' evs. voice_detector_callback g h frame sd = Inr (sd', evs)
        \<and> voice_detected sd' = voice_detected sd
        \<and> Stop_recording_directive \<notin> set evs"
    by blast
qed

theorem word_too_long_abort_witness:
  "map_option voice_detected
     (final_session
        (voice_detector_callback default_globals (host_at 1700000000000000) (frame_of (1 / 5))
           ((new_session default_globals ''a1'' default_runtime_params)
              \<lparr>voice_detected := 1, current_word_length := 3500, is_recording := 1,
               record_session := Some 1, recording_start_time := 1699999996000000\<rparr>)))
     = Some 0
   \<and> map_option consecutive_hits
       (final_session
          (voice_detector_callback default_globals (host_at 1700000000000000) (frame_of (1 / 5))
             ((new_session default_globals ''a1'' default_runtime_params)
                \<lparr>voice_detected := 1, current_word_length := 3500, is_recording := 1,
                 record_session := Some 1, recording_start_time := 1699999996000000\<rparr>)))
     = Some 0
   \<and> hd (events_of
          (voice_detector_callback default_globals (host_at 1700000000000000) (frame_of (1 / 5))
             ((new_session default_globals ''a1'' default_runtime_params)
                \<lparr>voice_detected := 1, current_word_length := 3500, is_recording := 1,
                 record_session := Some 1, recording_start_time := 1699999996000000\<rparr>)))
     = Stop_recording_directive
   \<and> filter is_word_detected
       (events_of
          (voice_detector_callback default_globals (host_at 1700000000000000) (frame_of (1 / 5))
             ((new_session default_globals ''a1'' default_runtime_params)
                \<lparr>voice_detected := 1, current_word_length := 3500, is_recording := 1,
                 record_session := Some 1, recording_start_time := 1699999996000000\<rparr>)))
     = []
   \<and> filter is_voice_end
       (events_of
          (voice_detector_callback default_globals (host_at 1700000000000000) (frame_of (1 / 5))
             ((new_session default_globals ''a1'' default_runtime_params)
                \<lparr>voice_detected := 1, current_word_length := 3500, is_recording := 1,
                 record_session := Some 1, recording_start_time := 1699999996000000\<rparr>)))
     = []
   \<and> map_sum id (\<lambda>q. ((fst q)\<lparr>runtime_params := default_runtime_params\<rparr>, snd q))
         (voice_detector_callback default_globals (host_at 1700000000000000) (frame_of (1 / 100))
            ((new_session default_globals ''a1'' default_runtime_params)
               \<lparr>voice_detected := 1, current_word_length := 3500,
                runtime_params := default_runtime_params\<lparr>maximum_word_length := 20\<rparr>\<rparr>))
       = voice_detector_callback default_globals (host_at 1700000000000000) (frame_of (1 / 100))
           ((new_session default_globals ''a1'' default_runtime_params)
              \<lparr>voice_detected := 1, current_word_length := 3500\<rparr>)
   \<and> map_option voice_detected
       (final_session
          (voice_detector_callback default_globals (host_at 1700000000000000) (frame_of (1 / 100))
             ((new_session default_globals ''a1'' default_runtime_params)
                \<lparr>voice_detected := 1, current_word_length := 3500\<rparr>)))
     = Some 1
   \<and> Stop_recording_directive
       \<notin> set (events_of
          (voice_detector_callback default_globals (host_at 1700000000000000) (frame_of (1 / 100))
             ((new_session default_globals ''a1'' default_runtime_params)
                \<lparr>voice_detected := 1, current_word_length := 3500\<rparr>)))"
proof -
  let ?g = default_globals
  let ?h = "host_at 1700000000000000"
  let ?sd = "(new_session default_globals ''a1'' default_runtime_params)
              \<lparr>voice_detected := 1, current_word_length := 3500, is_recording := 1,
               record_session := Some 1, recording_start_time := 1699999996000000\<rparr>"
  let ?f = "frame_of (1 / 5)"
  have h1: "voice_detected ?sd \<noteq> 0 \<and> frame_ms ?g = Inr 20 \<and> above (runtime_params ?sd) ?f"
    by (simp add: frame_ms_20 above_def scenario_defs)
  have h4: "maximum_word_length (runtime_params ?sd) < c_int (current_word_length ?sd + 20)"
    by (simp add: new_session_def default_runtime_params_def c_int_def)
  from word_too_long_abort [of ?sd ?g 20 ?f ?h, THEN conjunct1, THEN mp, OF h1] h4
  obtain sd' evs where
    "voice_detector_callback ?g ?h ?f ?sd = Inr (sd', evs)"
    "consecutive_hits sd' = 0" "filter is_word_detected evs = []" "filter is_voice_end evs = []"
    "voice_detected sd' = 0" "hd evs = Stop_recording_directive"
    by auto
  then have A: "map_option voice_detected (final_session (voice_detector_callback ?g ?h ?f ?sd)) = Some 0
    \<and> map_option consecutive_hits (final_session (voice_detector_callback ?g ?h ?f ?sd)) = Some 0
    \<and> hd (events_of (voice_detector_callback ?g ?h ?f ?sd)) = Stop_recording_directive
    \<and> filter is_word_detected (events_of (voice_detector_callback ?g ?h ?f ?sd)) = []
    \<and> filter is_voice_end (events_of (voice_detector_callback ?g ?h ?f ?sd)) = []"
    by (simp add: events_of_def final_session_def)
  let ?sv = "(new_session default_globals ''a1'' default_runtime_params)
              \<lparr>voice_detected := 1, current_word_length := 3500\<rparr>"
  let ?q = "frame_of (1 / 100)"
  have b: "below (runtime_params ?sv) ?q" by (simp add: below_def scenario_defs)
  have p: "runtime_params ?sv = default_runtime_params" by (simp add: new_session_def)
  have u: "?sv\<lparr>runtime_params := (runtime_params ?sv)\<lparr>maximum_word_length := 20\<rparr>\<rparr>
      = (new_session default_globals ''a1'' default_runtime_params)
               \<lparr>voice_detected := 1, current_word_length := 3500,
                runtime_params := default_runtime_params\<lparr>maximum_word_length := 20\<rparr>\<rparr>"
    by (simp add: new_session_def)
  from word_too_long_abort [of ?sv ?g 20 ?q ?h 20, THEN conjunct2, THEN conjunct1] b
  have "map_sum id (\<lambda>q. ((fst q)\<lparr>runtime_params := runtime_params ?sv\<rparr>, snd q))
         (voice_detector_callback ?g ?h ?q
            (?sv\<lparr>runtime_params := (runtime_params ?sv)\<lparr>maximum_word_length := 20\<rparr>\<rparr>))
       = voice_detector_callback ?g ?h ?q ?sv"
    by blast
  then have B: "map_sum id (\<lambda>q. ((fst q)\<lparr>runtime_params := default_runtime_params\<rparr>, snd q))
         (voice_detector_callback ?g ?h ?q
            ((new_session default_globals ''a1'' default_runtime_params)
               \<lparr>voice_detected := 1, current_word_length := 3500,
                runtime_params := default_runtime_params\<lparr>maximum_word_length := 20\<rparr>\<rparr>))
       = voice_detector_callback ?g ?h ?q ?sv"
    by (simp only: p u)
  have h5: "voice_detected ?sv \<noteq> 0 \<and> frame_ms ?g = Inr 20 \<and> below (runtime_params ?sv) ?q
        \<and> c_int (c_int (silence_frames ?sv + 1) * 20) \<le> max_silence (runtime_params ?sv)"
    using b by (simp add: frame_ms_default new_session_def default_runtime_params_def c_int_def)
  from word_too_long_abort [of ?sv ?g 20 ?q ?h, THEN conjunct2, THEN conjunct2, THEN mp, OF h5]
  obtain sd'' evs'' where "voice_detector_callback ?g ?h ?q ?sv = Inr (sd'', evs'')"
    "voice_detected sd'' = voice_detected ?sv" "Stop_recording_directive \<notin> set evs''"
    by blast
  then have C: "map_option voice_detected (final_session (voice_detector_callback ?g ?h ?q ?sv)) = Some 1
    \<and> Stop_recording_directive \<notin> set (events_of (voice_detector_callback ?g ?h ?q ?sv))"
    by (simp add: events_of_def final_session_def)
  from A B C show ?thesis by blast
qed

lemma rec_no_stop_directive:
  "Stop_recording_directive \<notin> set (snd (snd (voice_detector_start_recording h sd)))"
  "Stop_recording_directive \<notin> set (snd (snd (voice_detector_stop_recording h sd)))"
  "filter (\<lambda>ev. ev = Stop_recording_directive) (snd (snd (voice_detector_start_recording h sd))) = []"
  "filter (\<lambda>ev. ev = Stop_recording_directive) (snd (snd (voice_detector_stop_recording h sd))) = []"
  by (simp_all add: voice_detector_start_recording_def voice_detector_stop_recording_def Let_def
      split: option.splits)

text \<open>
  The claim has the abort on the frame after the one that takes the length past the
  maximum. It fails both ways it can be read.
  \<^item> A session that has voice detected and \<open>current_word_length\<close> beyond
    \<open>maximum_word_length\<close> between two frames: with \<open>hits = 1\<close> and
    \<open>min_word_length = maximum_word_length = -1\<close> the first frame, above the threshold,
    confirms the voice and leaves \<open>current_word_length = 0\<close>. The next frame, at or below
    the threshold, keeps the voice and issues no stop-recording directive.
  \<^item> The frame that takes the length past the maximum: with \<open>min_word_length = 20\<close> and
    \<open>maximum_word_length = 40\<close>, frames above the threshold 20 ms apart confirm the voice
    on the second frame and reach a length of 40 on the fourth; the fifth takes it to 60
    and aborts itself. The sixth frame, the next one, issues no directive and leaves
    \<open>consecutive_hits = 1\<close>.
\<close>

theorem word_too_long_next_frame_counterexample:
  "map_option voice_detected
     (final_session
        (run_frames default_globals
           [(host_at 1700000000000000, frame_of (1 / 5))]
           (new_session default_globals ''a1''
              (default_runtime_params\<lparr>hits := 1, min_word_length := - 1, maximum_word_length := - 1\<rparr>))))
     = Some 1
   \<and> map_option current_word_length
       (final_session
          (run_frames default_globals
             [(host_at 1700000000000000, frame_of (1 / 5))]
             (new_session default_globals ''a1''
                (default_runtime_params\<lparr>hits := 1, min_word_length := - 1, maximum_word_length := - 1\<rparr>))))
     = Some 0
   \<and> map_option voice_detected
       (final_session
          (run_frames default_globals
             [(host_at 1700000000000000, frame_of (1 / 5)),
              (host_at 1700000000020000, frame_of (1 / 100))]
             (new_session default_globals ''a1''
                (default_runtime_params\<lparr>hits := 1, min_word_length := - 1, maximum_word_length := - 1\<rparr>))))
     = Some 1
   \<and> Stop_recording_directive
       \<notin> set (events_of
          (run_frames default_globals
             [(host_at 1700000000000000, frame_of (1 / 5)),
              (host_at 1700000000020000, frame_of (1 / 100))]
             (new_session default_globals ''a1''
                (default_runtime_params\<lparr>hits := 1, min_word_length := - 1, maximum_word_length := - 1\<rparr>))))
   \<and> map_option current_word_length
       (final_session
          (run_frames default_globals (frames_every 1700000000000000 4 (1 / 5))
             (new_session default_globals ''a1''
                (default_runtime_params\<lparr>min_word_length := 20, maximum_word_length := 40\<rparr>))))
     = Some 40
   \<and> map_option voice_detected
       (final_session
          (run_frames default_globals (frames_every 1700000000000000 4 (1 / 5))
             (new_session default_globals ''a1''
                (default_runtime_params\<lparr>min_word_length := 20, maximum_word_length := 40\<rparr>))))
     = Some 1
   \<and> map_option voice_detected
       (final_session
          (run_frames default_globals (frames_every 1700000000000000 5 (1 / 5))
             (new_session default_globals ''a1''
                (default_runtime_params\<lparr>min_word_length := 20, maximum_word_length := 40\<rparr>))))
     = Some 0
   \<and> filter (\<lambda>ev. ev = Stop_recording_directive)
       (events_of
          (run_frames default_globals (frames_every 1700000000000000 5 (1 / 5))
             (new_session default_globals ''a1''
                (default_runtime_params\<lparr>min_word_length := 20, maximum_word_length := 40\<rparr>))))
     = [Stop_recording_directive]
   \<and> filter (\<lambda>ev. ev = Stop_recording_directive)
       (events_of
          (run_frames default_globals (frames_every 1700000000000000 6 (1 / 5))
             (new_session default_globals ''a1''
                (default_runtime_params\<lparr>min_word_length := 20, maximum_word_length := 40\<rparr>))))
     = [Stop_recording_directive]
   \<and> map_option consecutive_hits
       (final_session
          (run_frames default_globals (frames_every 1700000000000000 6 (1 / 5))
             (new_session default_globals ''a1''
                (default_runtime_params\<lparr>min_word_length := 20, maximum_word_length := 40\<rparr>))))
     = Some 1"
  by (simp add: eval_nat_numeral callback_onset callback_voicing_20 callback_silence_20
      scenario_defs Let_def start_rec_keeps stop_rec_keeps rec_no_stop_directive
      events_of_def final_session_def c_int_def)

subsection \<open>Stopping a recording\<close>

text \<open>
  Claim C8, as the code handles the failure. A session is recording and holds a recording
  handle. Stopping stores the whole seconds since \<open>recording_start_time\<close> in
  \<open>recording_duration\<close>, calls the host's record-stop and changes no field but
  \<open>recording_duration\<close>, \<open>is_recording\<close> and \<open>record_session\<close>.
  \<^item> If the host reports success, \<open>is_recording\<close> and the handle are cleared and the
    recording-stopped notification carries the duration (as the \<^verbatim>\<open>int\<close> parameter of the
    call holds it).
  \<^item> If the host reports a failure, that status is returned, \<open>is_recording\<close> and the handle
    stay as they were, and no notification is dispatched.
\<close>

theorem stop_recording_outcomes:
  assumes "is_recording sd \<noteq> 0" and "record_session sd = Some rs"
  shows "recording_duration (fst (snd (voice_detector_stop_recording h sd)))
           = (clock_record_stop h - recording_start_time sd) sdiv 1000000
    \<and> (fst (snd (voice_detector_stop_recording h sd)))
          \<lparr>recording_duration := 0, is_recording := 0, record_session := None\<rparr>
        = sd\<lparr>recording_duration := 0, is_recording := 0, record_session := None\<rparr>
    \<and> (if record_stop_status h = SWITCH_STATUS_SUCCESS
        then fst (voice_detector_stop_recording h sd) = SWITCH_STATUS_SUCCESS
           \<and> is_recording (fst (snd (voice_detector_stop_recording h sd))) = 0
           \<and> record_session (fst (snd (voice_detector_stop_recording h sd))) = None
           \<and> snd (snd (voice_detector_stop_recording h sd))
               = [Record_stop rs,
                  Api_call (uuid sd) 3
                    (c_int ((clock_record_stop h - recording_start_time sd) sdiv 1000000))
                    (leg (runtime_params sd))]
        else fst (voice_detector_stop_recording h sd) = record_stop_status h
           \<and> is_recording (fst (snd (voice_detector_stop_recording h sd))) = is_recording sd
           \<and> record_session (fst (snd (voice_detector_stop_recording h sd))) = Some rs
           \<and> snd (snd (voice_detector_stop_recording h sd)) = [Record_stop rs])"
  using assms by (simp add: voice_detector_stop_recording_def Let_def)

theorem stop_recording_outcomes_witness:
  "recording_duration
     (fst (snd (voice_detector_stop_recording (host_at 1700000003000000)
        ((new_session default_globals ''a1'' default_runtime_params)
           \<lparr>is_recording := 1, record_session := Some 1, recording_start_time := 1700000000000000\<rparr>))))
     = 3
   \<and> is_recording
       (fst (snd (voice_detector_stop_recording (host_at 1700000003000000)
          ((new_session default_globals ''a1'' default_runtime_params)
             \<lparr>is_recording := 1, record_session := Some 1, recording_start_time := 1700000000000000\<rparr>))))
     = 0
   \<and> snd (snd (voice_detector_stop_recording (host_at 1700000003000000)
          ((new_session default_globals ''a1'' default_runtime_params)
             \<lparr>is_recording := 1, record_session := Some 1, recording_start_time := 1700000000000000\<rparr>)))
     = [Record_stop 1, Api_call ''a1'' 3 3 ''a'']"
  using stop_recording_outcomes [where h = "host_at 1700000003000000" and rs = 1
      and sd = "(new_session default_globals ''a1'' default_runtime_params)
           \<lparr>is_recording := 1, record_session := Some 1, recording_start_time := 1700000000000000\<rparr>"]
  by (simp add: scenario_defs signed_divide_int_def c_int_def)

text \<open>A failing record-stop leaves the session recording, with its handle.\<close>

theorem stop_recording_failure_counterexample:
  "is_recording
     (fst (snd (voice_detector_stop_recording
        ((host_at 1700000003000000)\<lparr>record_stop_status := SWITCH_STATUS_FALSE\<rparr>)
        ((new_session default_globals ''a1'' default_runtime_params)
           \<lparr>is_recording := 1, record_session := Some 1, recording_start_time := 1700000000000000\<rparr>))))
     = 1
   \<and> record_session
       (fst (snd (voice_detector_stop_recording
          ((host_at 1700000003000000)\<lparr>record_stop_status := SWITCH_STATUS_FALSE\<rparr>)
          ((new_session default_globals ''a1'' default_runtime_params)
             \<lparr>is_recording := 1, record_session := Some 1, recording_start_time := 1700000000000000\<rparr>))))
     = Some 1
   \<and> fst (voice_detector_stop_recording
          ((host_at 1700000003000000)\<lparr>record_stop_status := SWITCH_STATUS_FALSE\<rparr>)
          ((new_session default_globals ''a1'' default_runtime_params)
             \<lparr>is_recording := 1, record_session := Some 1, recording_start_time := 1700000000000000\<rparr>))
     = SWITCH_STATUS_FALSE"
  by (simp add: voice_detector_stop_recording_def scenario_defs Let_def)

subsection \<open>The confirmation of voice\<close>

lemma onset_step_unconfirmed:
  assumes "voice_detected sd = 0" "above (runtime_params sd) frame"
    "c_int (consecutive_hits sd + 1) < hits (runtime_params sd)"
  shows "\<exists>sd' evs. voice_detector_callback g h frame sd = Inr (sd', evs)
      \<and> voice_detected sd' = 0
      \<and> consecutive_hits sd' = c_int (consecutive_hits sd + 1)
      \<and> runtime_params sd' = runtime_params sd
      \<and> list_all is_voice_start evs"
  using assms by (simp add: callback_onset above_def Let_def)

lemma onset_run_unconfirmed:
  assumes "voice_detected sd = 0"
    "list_all (\<lambda>hf. above (runtime_params sd) (snd hf)) hfs"
    "0 \<le> consecutive_hits sd"
    "consecutive_hits sd + int (length hfs) < hits (runtime_params sd)"
    "hits (runtime_params sd) \<le> 2147483647"
  shows "\<exists>sd' evs. run_frames g hfs sd = Inr (sd', evs)
      \<and> voice_detected sd' = 0
      \<and> consecutive_hits sd' = consecutive_hits sd + int (length hfs)
      \<and> runtime_params sd' = runtime_params sd
      \<and> list_all is_voice_start evs"
  using assms
proof (induction hfs arbitrary: sd)
  case Nil
  then show ?case by simp
next
  case (Cons hf rest)
  from Cons.prems have w: "c_int (consecutive_hits sd + 1) = consecutive_hits sd + 1"
    by (intro c_int_id) simp_all
  from Cons.prems have "c_int (consecutive_hits sd + 1) < hits (runtime_params sd)"
    by (simp add: w)
  with Cons.prems obtain sd1 evs1 where
    r1: "voice_detector_callback g (fst hf) (snd hf) sd = Inr (sd1, evs1)"
    and k1: "voice_detected sd1 = 0" "consecutive_hits sd1 = c_int (consecutive_hits sd + 1)"
      "runtime_params sd1 = runtime_params sd" "list_all is_voice_start evs1"
    using onset_step_unconfirmed [of sd "snd hf" g "fst hf"] by auto
  from k1 w have k1': "consecutive_hits sd1 = consecutive_hits sd + 1" by simp
  from Cons.IH [of sd1] Cons.prems k1 k1' obtain sd2 evs2 where
    r2: "run_frames g rest sd1 = Inr (sd2, evs2)"
    and k2: "voice_detected sd2 = 0" "consecutive_hits sd2 = consecutive_hits sd1 + int (length rest)"
      "runtime_params sd2 = runtime_params sd1" "list_all is_voice_start evs2"
    by auto
  from r1 r2 k1 k1' k2 show ?case by simp
qed

lemma onset_step_confirmed:
  assumes "voice_detected sd = 0" "above (runtime_params sd) frame"
    "hits (runtime_params sd) \<le> c_int (consecutive_hits sd + 1)"
  shows "\<exists>sd' evs. voice_detector_callback g h frame sd = Inr (sd', evs)
      \<and> voice_detected sd' = 1
      \<and> last_voice_time sd' = clock_callback h
      \<and> silence_frames sd' = 0
      \<and> word_start_time sd' = c_int (clock_callback h)
      \<and> current_word_length sd' = 0
      \<and> Start_recording_directive \<in> set evs"
  using assms
  by (simp add: callback_onset above_def Let_def start_rec_keeps voice_detector_start_recording_def)

lemma voice_starts_only:
  assumes "list_all is_voice_start evs"
  shows "Start_recording_directive \<notin> set evs"
proof -
  have "is_voice_start ev \<Longrightarrow> ev \<noteq> Start_recording_directive" for ev
    by (cases ev) auto
  with assms show ?thesis by (auto simp add: list_all_iff)
qed

text \<open>
  What the frames of a confirming run do. The session is idle (\<open>voice_detected = 0\<close>,
  \<open>consecutive_hits = 0\<close>) and \<open>hits\<close> processed frames above the threshold follow:
  \<open>pre\<close> are the first \<open>hits - 1\<close> of them, \<open>hf\<close> is the last.
  \<^item> After every prefix of \<open>pre\<close> voice is still not detected, and no frame of \<open>pre\<close> issues
    a start-recording directive.
  \<^item> The frame \<open>hf\<close> sets \<open>voice_detected\<close> to 1, \<open>silence_frames\<close> to 0 and
    \<open>current_word_length\<close> to 0 and issues the start-recording directive. It assigns the
    current time to \<open>last_voice_time\<close>, and to \<open>word_start_time\<close> the current time
    converted to \<^verbatim>\<open>int\<close>.
\<close>

lemma voice_confirmed_on_hits_th_frame:
  assumes "voice_detected sd = 0" and "consecutive_hits sd = 0"
    and "list_all (\<lambda>hf. above (runtime_params sd) (snd hf)) (pre @ [hf])"
    and "int (length pre) + 1 = hits (runtime_params sd)"
    and "hits (runtime_params sd) \<le> 2147483647"
  shows "\<exists>sd1 evs1 sd2 evs2.
      run_frames g pre sd = Inr (sd1, evs1)
    \<and> Start_recording_directive \<notin> set evs1
    \<and> (\<forall>n \<le> length pre.
          map_option voice_detected (final_session (run_frames g (take n pre) sd)) = Some 0)
    \<and> voice_detector_callback g (fst hf) (snd hf) sd1 = Inr (sd2, evs2)
    \<and> run_frames g (pre @ [hf]) sd = Inr (sd2, evs1 @ evs2)
    \<and> voice_detected sd2 = 1
    \<and> last_voice_time sd2 = clock_callback (fst hf)
    \<and> silence_frames sd2 = 0
    \<and> word_start_time sd2 = c_int (clock_callback (fst hf))
    \<and> current_word_length sd2 = 0
    \<and> Start_recording_directive \<in> set evs2"
proof -
  let ?p = "runtime_params sd"
  from assms(3) have pre: "list_all (\<lambda>hf. above ?p (snd hf)) pre" and hf: "above ?p (snd hf)"
    by simp_all
  from assms(2) have nn: "0 \<le> consecutive_hits sd" by simp
  have early: "map_option voice_detected (final_session (run_frames g (take n pre) sd)) = Some 0"
    if "n \<le> length pre" for n
  proof -
    from pre have "list_all (\<lambda>hf. above ?p (snd hf)) (take n pre)"
      by (auto simp add: list_all_iff dest: in_set_takeD)
    moreover from that assms(2,4) have "consecutive_hits sd + int (length (take n pre)) < hits ?p"
      by simp
    ultimately obtain sd' evs where "run_frames g (take n pre) sd = Inr (sd', evs)"
      and "voice_detected sd' = 0"
      using onset_run_unconfirmed [OF assms(1) _ nn _ assms(5), of "take n pre" g] by blast
    then show ?thesis by (simp add: final_session_def)
  qed
  from assms(2,4) have "consecutive_hits sd + int (length pre) < hits ?p" by simp
  from onset_run_unconfirmed [OF assms(1) pre nn this assms(5), of g] obtain sd1 evs1 where
    r1: "run_frames g pre sd = Inr (sd1, evs1)"
    and k1: "voice_detected sd1 = 0" "consecutive_hits sd1 = consecutive_hits sd + int (length pre)"
      "runtime_params sd1 = ?p" and v1: "list_all is_voice_start evs1"
    by blast
  from k1 hf have a1: "above (runtime_params sd1) (snd hf)" by simp
  from k1 assms(2,4,5) have "c_int (consecutive_hits sd1 + 1) = consecutive_hits sd1 + 1"
    by (intro c_int_id) simp_all
  with k1 assms(2,4) have c1: "hits (runtime_params sd1) \<le> c_int (consecutive_hits sd1 + 1)" by simp
  from onset_step_confirmed [OF k1(1) a1 c1, of g "fst hf"] obtain sd2 evs2 where
    r2: "voice_detector_callback g (fst hf) (snd hf) sd1 = Inr (sd2, evs2)"
    and k2: "voice_detected sd2 = 1" "last_voice_time sd2 = clock_callback (fst hf)"
      "silence_frames sd2 = 0"
      "word_start_time sd2 = c_int (clock_callback (fst hf))" "current_word_length sd2 = 0"
      "Start_recording_directive \<in> set evs2"
    by blast
  have whole: "run_frames g (pre @ [hf]) sd = Inr (sd2, evs1 @ evs2)"
    using r1 r2 by (simp add: run_frames_append)
  from r1 voice_starts_only [OF v1] early r2 whole k2 show ?thesis by blast
qed

text \<open>
  Claim C1 has the confirming frame set \<open>word_start_time\<close> to the current time. Line 464
  assigns the current time, a 64-bit \<^verbatim>\<open>switch_time_t\<close>, to \<open>word_start_time\<close>, which the
  header declares \<^verbatim>\<open>int\<close>: the field holds the time reduced to 32 bits. The line before
  next, 462, assigns the same time to \<open>last_voice_time\<close>, a \<^verbatim>\<open>switch_time_t\<close>, which holds it
  in full. From a new session with the default parameters (\<open>hits = 2\<close>), two frames above
  the threshold confirm the voice on the second, at 1700000000020000 microseconds:
  \<open>last_voice_time\<close> is that time and \<open>word_start_time\<close> is 404655648.
\<close>

theorem confirming_frame_truncates_word_start_time:
  "map_option voice_detected
     (final_session
        (run_frames default_globals
           [(host_at 1700000000000000, frame_of (1 / 5)),
            (host_at 1700000000020000, frame_of (1 / 5))]
           (new_session default_globals ''a1'' default_runtime_params)))
     = Some 1
   \<and> map_option last_voice_time
       (final_session
          (run_frames default_globals
             [(host_at 1700000000000000, frame_of (1 / 5)),
              (host_at 1700000000020000, frame_of (1 / 5))]
             (new_session default_globals ''a1'' default_runtime_params)))
     = Some 1700000000020000
   \<and> map_option word_start_time
       (final_session
          (run_frames default_globals
             [(host_at 1700000000000000, frame_of (1 / 5)),
              (host_at 1700000000020000, frame_of (1 / 5))]
             (new_session default_globals ''a1'' default_runtime_params)))
     = Some 404655648
   \<and> map_option silence_frames
       (final_session
          (run_frames default_globals
             [(host_at 1700000000000000, frame_of (1 / 5)),
              (host_at 1700000000020000, frame_of (1 / 5))]
             (new_session default_globals ''a1'' default_runtime_params)))
     = Some 0
   \<and> map_option current_word_length
       (final_session
          (run_frames default_globals
             [(host_at 1700000000000000, frame_of (1 / 5)),
              (host_at 1700000000020000, frame_of (1 / 5))]
             (new_session default_globals ''a1'' default_runtime_params)))
     = Some 0
   \<and> Start_recording_directive
       \<in> set (events_of
          (run_frames default_globals
             [(host_at 1700000000000000, frame_of (1 / 5)),
              (host_at 1700000000020000, frame_of (1 / 5))]
             (new_session default_globals ''a1'' default_runtime_params)))"
  by (simp add: callback_onset scenario_defs Let_def start_rec_keeps
      voice_detector_start_recording_def events_of_def final_session_def c_int_def)

subsection \<open>Words\<close>









subsection \<open>Hits that are not consecutive\<close>

text \<open>
  Claim C2 says that a frame at or below the threshold resets \<open>consecutive_hits\<close> while no
  voice is detected. The callback does nothing on that path (\<open>callback_idle_silence\<close>): the
  count survives the frame. From a new session with the default parameters (\<open>hits = 2\<close>),
  one frame above the threshold and one below leave \<open>consecutive_hits = 1\<close>, and a third
  frame, above the threshold, confirms the voice and issues the start-recording
  directive, though no two frames above the threshold followed each other.
\<close>

theorem hits_counted_across_silence:
  "map_option consecutive_hits
     (final_session
        (run_frames default_globals
           [(host_at 1700000000000000, frame_of (1 / 5)),
            (host_at 1700000000020000, frame_of (1 / 100))]
           (new_session default_globals ''a1'' default_runtime_params)))
     = Some 1
   \<and> map_option voice_detected
       (final_session
          (run_frames default_globals
             [(host_at 1700000000000000, frame_of (1 / 5)),
              (host_at 1700000000020000, frame_of (1 / 100)),
              (host_at 1700000000040000, frame_of (1 / 5))]
             (new_session default_globals ''a1'' default_runtime_params)))
     = Some 1
   \<and> Start_recording_directive
       \<in> set (events_of
          (run_frames default_globals
             [(host_at 1700000000000000, frame_of (1 / 5)),
              (host_at 1700000000020000, frame_of (1 / 100)),
              (host_at 1700000000040000, frame_of (1 / 5))]
             (new_session default_globals ''a1'' default_runtime_params)))"
  by (simp add: callback_onset callback_idle_silence scenario_defs Let_def start_rec_keeps
      events_of_def final_session_def c_int_def)

subsection \<open>Voice start within a run\<close>

text \<open>
  Claim C6 says that only the first frame of a run above the threshold dispatches the
  voice-start notification. The callback tests the debounce window and nothing else
  (\<open>callback_onset\<close>), on every frame above the threshold while no voice is detected. With
  \<open>hits = 30\<close> and the default window of 500 ms, 27 frames above the threshold, 20 ms apart,
  dispatch voice start twice, on the first frame and on the 27th (520 ms later), and the
  run is still not confirmed.
\<close>

theorem voice_start_repeats_within_run:
  "filter is_voice_start
     (events_of
        (run_frames default_globals (frames_every 1700000000000000 27 (1 / 5))
           (new_session default_globals ''a1'' (default_runtime_params\<lparr>hits := 30\<rparr>))))
     = [Api_call ''a1'' 1 200 ''a'', Api_call ''a1'' 1 200 ''a'']
   \<and> map_option voice_detected
       (final_session
          (run_frames default_globals (frames_every 1700000000000000 27 (1 / 5))
             (new_session default_globals ''a1'' (default_runtime_params\<lparr>hits := 30\<rparr>))))
     = Some 0
   \<and> map_option consecutive_hits
       (final_session
          (run_frames default_globals (frames_every 1700000000000000 27 (1 / 5))
             (new_session default_globals ''a1'' (default_runtime_params\<lparr>hits := 30\<rparr>))))
     = Some 27"
  by (simp add: eval_nat_numeral callback_onset scenario_defs Let_def
      events_of_def final_session_def int_of_float_def c_int_def payload_values)

end
